theory Spec2Isabelle
  imports Main "HOL-Library.Sublist"
begin

section \<open>PandasAI MCP service: dispatch, session state, upload and event stream\<close>

text \<open>
  A shallow embedding of \<^verbatim>\<open>dist/index.js\<close>. The two module variables
  \<^verbatim>\<open>currentDataframe\<close> and \<^verbatim>\<open>currentLLM\<close> form the session, which every
  handler takes and returns. The three collaborators \<^verbatim>\<open>MCPHandler\<close>, \<^verbatim>\<open>DataAnalyzer\<close>
  and \<^verbatim>\<open>LLMManager\<close> and the libraries the handlers call (the file system, the CSV
  and Excel decoders, \<^verbatim>\<open>path\<close>) are not part of the file; they are fields of an
  environment record, and a call that throws (or a promise that rejects) returns
  \<open>Inl\<close> of the error's message.
\<close>

subsection \<open>Values decoded from JSON\<close>

text \<open>
  Request bodies, tool arguments and response bodies are JavaScript values as
  \<^verbatim>\<open>JSON.parse\<close> builds them. A number is given by the numeral JavaScript prints for
  it: \<open>JNum ''42''\<close>, \<open>JNum ''0.5''\<close>, \<open>JNum ''-1''\<close>, \<open>JNum ''1e+21''\<close>. Distinct
  numbers print differently, except that zero and minus zero both print as \<^verbatim>\<open>0\<close>, so
  the JSON texts \<^verbatim>\<open>0\<close>, \<^verbatim>\<open>-0\<close> and \<^verbatim>\<open>0.0\<close> all decode to \<open>JNum ''0''\<close>. An object
  is the list of its own entries, read by \<open>map_of\<close>. Strings are the byte sequences of
  their UTF-8 encoding, so the Chinese message literals of the source appear as byte
  lists.
\<close>

datatype jsval =
    JUndefined
  | JNull
  | JBool bool
  | JNum string
  | JStr string
  | JArr "jsval list"
  | JObj "(string \<times> jsval) list"

text \<open>
  The truth value of a condition such as \<^verbatim>\<open>if (llm_config)\<close> or \<^verbatim>\<open>!query\<close>. The falsy
  numbers are the two zeros and \<^verbatim>\<open>NaN\<close>.
\<close>

fun truthy :: "jsval \<Rightarrow> bool" where
  "truthy JUndefined = False"
| "truthy JNull = False"
| "truthy (JBool b) = b"
| "truthy (JNum p) = (p \<noteq> ''0'' \<and> p \<noteq> ''NaN'')"
| "truthy (JStr s) = (s \<noteq> [])"
| "truthy (JArr xs) = True"
| "truthy (JObj kvs) = True"

text \<open>Reading or destructuring a property of \<^verbatim>\<open>undefined\<close> or \<^verbatim>\<open>null\<close> throws a TypeError.\<close>

definition nullish :: "jsval \<Rightarrow> bool" where
  "nullish v = (v = JUndefined \<or> v = JNull)"

text \<open>
  Property read on a value that is not nullish, for the property names the program reads
  (\<^verbatim>\<open>method\<close>, \<^verbatim>\<open>params\<close>, \<^verbatim>\<open>name\<close>, \<^verbatim>\<open>arguments\<close>, \<^verbatim>\<open>query\<close>, \<^verbatim>\<open>llm_config\<close>,
  \<^verbatim>\<open>model\<close>, \<^verbatim>\<open>answer\<close>): only an object can carry one of them.
\<close>

fun get_prop :: "jsval \<Rightarrow> string \<Rightarrow> jsval" where
  "get_prop (JObj kvs) k = (case map_of kvs k of None \<Rightarrow> JUndefined | Some v \<Rightarrow> v)"
| "get_prop v k = JUndefined"

text \<open>\<^verbatim>\<open>Object.keys(o)\<close>: the distinct property names of an object.\<close>

definition Object_keys :: "(string \<times> jsval) list \<Rightarrow> string list" where
  "Object_keys kvs = remdups (map fst kvs)"

text \<open>
  The number of an array length such as \<^verbatim>\<open>data.length\<close>. A length is a natural number
  below \<open>2^32\<close>, and JavaScript prints such a number in plain decimal; the digits are
  built from the last one backwards.
\<close>

definition digit_char :: "nat \<Rightarrow> char" where
  "digit_char d = ''0123456789'' ! d"

function nat_digits :: "nat \<Rightarrow> string \<Rightarrow> string" where
  "nat_digits n acc =
     (if n < 10 then digit_char n # acc
      else nat_digits (n div 10) (digit_char (n mod 10) # acc))"
  by pat_completeness auto
termination
  by (relation "measure fst") auto

definition count_number :: "nat \<Rightarrow> jsval" where
  "count_number n = JNum (nat_digits n [])"

fun join :: "string \<Rightarrow> string list \<Rightarrow> string" where
  "join sep [] = []"
| "join sep [x] = x"
| "join sep (x # y # ys) = x @ sep @ join sep (y # ys)"

primrec all_some :: "'a option list \<Rightarrow> 'a list option" where
  "all_some [] = Some []"
| "all_some (x # xs) =
     (case x of
        None \<Rightarrow> None
      | Some y \<Rightarrow> (case all_some xs of None \<Rightarrow> None | Some ys \<Rightarrow> Some (y # ys)))"

text \<open>
  The conversion a template literal \<^verbatim>\<open>${v}\<close> applies to a value decoded from JSON;
  \<open>None\<close> is the TypeError \<^verbatim>\<open>Cannot convert object to primitive value\<close>. A string is
  inserted as it is and a number as its numeral. An array joins the conversions of its
  elements with commas, \<^verbatim>\<open>null\<close> elements giving the empty string, and fails when an
  element fails. An object prints as \<^verbatim>\<open>[object Object]\<close> through the inherited
  \<^verbatim>\<open>toString\<close>; an object with an own entry \<^verbatim>\<open>toString\<close> hides that method behind a
  value that cannot be called (JSON has no functions), and then neither its own nor the
  inherited \<^verbatim>\<open>valueOf\<close> yields a primitive, so the conversion throws.
\<close>

fun to_string :: "jsval \<Rightarrow> string option" where
  "to_string JUndefined = Some ''undefined''"
| "to_string JNull = Some ''null''"
| "to_string (JBool b) = Some (if b then ''true'' else ''false'')"
| "to_string (JNum p) = Some p"
| "to_string (JStr s) = Some s"
| "to_string (JArr xs) =
     (case all_some (map (\<lambda>x. if x = JUndefined \<or> x = JNull then Some [] else to_string x) xs) of
        None \<Rightarrow> None
      | Some parts \<Rightarrow> Some (join '','' parts))"
| "to_string (JObj kvs) =
     (if ''toString'' \<in> set (map fst kvs) then None else Some ''[object Object]'')"

subsection \<open>Message literals\<close>

definition msg_unsupported_method :: string where
  "msg_unsupported_method = [CHR 0xE4, CHR 0xB8, CHR 0x8D, CHR 0xE6, CHR 0x94, CHR 0xAF, CHR 0xE6, CHR 0x8C, CHR 0x81, CHR 0xE7, CHR 0x9A, CHR 0x84] @ ''MCP'' @ [CHR 0xE6, CHR 0x96, CHR 0xB9, CHR 0xE6, CHR 0xB3, CHR 0x95] @ '': ''"

definition msg_unknown_tool :: string where
  "msg_unknown_tool = [CHR 0xE6, CHR 0x9C, CHR 0xAA, CHR 0xE7, CHR 0x9F, CHR 0xA5, CHR 0xE7, CHR 0x9A, CHR 0x84, CHR 0xE5, CHR 0xB7, CHR 0xA5, CHR 0xE5, CHR 0x85, CHR 0xB7] @ '': ''"

definition msg_upload_first :: string where
  "msg_upload_first = [CHR 0xE8, CHR 0xAF, CHR 0xB7, CHR 0xE5, CHR 0x85, CHR 0x88, CHR 0xE4, CHR 0xB8, CHR 0x8A, CHR 0xE4, CHR 0xBC, CHR 0xA0, CHR 0xE6, CHR 0x95, CHR 0xB0, CHR 0xE6, CHR 0x8D, CHR 0xAE, CHR 0xE6, CHR 0x96, CHR 0x87, CHR 0xE4, CHR 0xBB, CHR 0xB6]"

definition msg_configure_first :: string where
  "msg_configure_first = [CHR 0xE8, CHR 0xAF, CHR 0xB7, CHR 0xE5, CHR 0x85, CHR 0x88, CHR 0xE9, CHR 0x85, CHR 0x8D, CHR 0xE7, CHR 0xBD, CHR 0xAE] @ ''LLM''"

definition msg_analysis_done :: string where
  "msg_analysis_done = [CHR 0xE5, CHR 0x88, CHR 0x86, CHR 0xE6, CHR 0x9E, CHR 0x90, CHR 0xE5, CHR 0xAE, CHR 0x8C, CHR 0xE6, CHR 0x88, CHR 0x90]"

definition msg_analysis_failed :: string where
  "msg_analysis_failed = [CHR 0xE6, CHR 0x95, CHR 0xB0, CHR 0xE6, CHR 0x8D, CHR 0xAE, CHR 0xE5, CHR 0x88, CHR 0x86, CHR 0xE6, CHR 0x9E, CHR 0x90, CHR 0xE5, CHR 0xA4, CHR 0xB1, CHR 0xE8, CHR 0xB4, CHR 0xA5] @ '': ''"

definition msg_llm_configured :: string where
  "msg_llm_configured = ''LLM'' @ [CHR 0xE9, CHR 0x85, CHR 0x8D, CHR 0xE7, CHR 0xBD, CHR 0xAE, CHR 0xE6, CHR 0x88, CHR 0x90, CHR 0xE5, CHR 0x8A, CHR 0x9F] @ '': ''"

definition msg_llm_failed :: string where
  "msg_llm_failed = ''LLM'' @ [CHR 0xE9, CHR 0x85, CHR 0x8D, CHR 0xE7, CHR 0xBD, CHR 0xAE, CHR 0xE5, CHR 0xA4, CHR 0xB1, CHR 0xE8, CHR 0xB4, CHR 0xA5] @ '': ''"

definition msg_connected :: string where
  "msg_connected = [CHR 0xE5, CHR 0xB7, CHR 0xB2, CHR 0xE8, CHR 0xBF, CHR 0x9E, CHR 0xE6, CHR 0x8E, CHR 0xA5, CHR 0xE5, CHR 0x88, CHR 0xB0] @ ''PandasAI MCP'' @ [CHR 0xE6, CHR 0x9C, CHR 0x8D, CHR 0xE5, CHR 0x8A, CHR 0xA1]"

definition msg_choose_file :: string where
  "msg_choose_file = [CHR 0xE8, CHR 0xAF, CHR 0xB7, CHR 0xE9, CHR 0x80, CHR 0x89, CHR 0xE6, CHR 0x8B, CHR 0xA9, CHR 0xE8, CHR 0xA6, CHR 0x81, CHR 0xE4, CHR 0xB8, CHR 0x8A, CHR 0xE4, CHR 0xBC, CHR 0xA0, CHR 0xE7, CHR 0x9A, CHR 0x84, CHR 0xE6, CHR 0x96, CHR 0x87, CHR 0xE4, CHR 0xBB, CHR 0xB6]"

definition msg_bad_format :: string where
  "msg_bad_format = [CHR 0xE4, CHR 0xB8, CHR 0x8D, CHR 0xE6, CHR 0x94, CHR 0xAF, CHR 0xE6, CHR 0x8C, CHR 0x81, CHR 0xE7, CHR 0x9A, CHR 0x84, CHR 0xE6, CHR 0x96, CHR 0x87, CHR 0xE4, CHR 0xBB, CHR 0xB6, CHR 0xE6, CHR 0xA0, CHR 0xBC, CHR 0xE5, CHR 0xBC, CHR 0x8F]"

definition msg_upload_ok :: string where
  "msg_upload_ok = [CHR 0xE6, CHR 0x96, CHR 0x87, CHR 0xE4, CHR 0xBB, CHR 0xB6, CHR 0xE4, CHR 0xB8, CHR 0x8A, CHR 0xE4, CHR 0xBC, CHR 0xA0, CHR 0xE6, CHR 0x88, CHR 0x90, CHR 0xE5, CHR 0x8A, CHR 0x9F]"

definition msg_need_query :: string where
  "msg_need_query = [CHR 0xE8, CHR 0xAF, CHR 0xB7, CHR 0xE6, CHR 0x8F, CHR 0x90, CHR 0xE4, CHR 0xBE, CHR 0x9B, CHR 0xE5, CHR 0x88, CHR 0x86, CHR 0xE6, CHR 0x9E, CHR 0x90, CHR 0xE6, CHR 0x9F, CHR 0xA5, CHR 0xE8, CHR 0xAF, CHR 0xA2]"

subsection \<open>Session state and collaborators\<close>

text \<open>
  The object stored in \<^verbatim>\<open>currentDataframe\<close>: the loaded rows (each an object from column
  name to cell), the original file name and the two counts.
\<close>

record dataframe =
  data :: "(string \<times> jsval) list list"
  filename :: string
  rows :: nat
  columns :: nat

text \<open>
  The two module variables; \<open>None\<close> is their initial \<^verbatim>\<open>null\<close>. The handle that
  \<^verbatim>\<open>configureLLM\<close> returns is opaque (and an object, hence truthy).
\<close>

record 'llm session =
  currentDataframe :: "dataframe option"
  currentLLM :: "'llm option"

record 'llm env =
  initialize :: "jsval \<Rightarrow> string + jsval"
  listTools :: "string + jsval"
  configureLLM :: "jsval \<Rightarrow> string + 'llm"
  analyze :: "dataframe \<Rightarrow> jsval \<Rightarrow> 'llm \<Rightarrow> string + jsval"
  typeError :: "string \<Rightarrow> string"
  convertError :: string
  extname :: "string \<Rightarrow> string"
  toLowerCase :: "string \<Rightarrow> string"
  createReadStream :: "string \<Rightarrow> string + string"
  csv :: "string \<Rightarrow> string + (string \<times> jsval) list list"
  xlsx_sheet_to_json :: "string \<Rightarrow> string + (string \<times> jsval) list list"
  unlinkSync :: "string \<Rightarrow> string + unit"
  toISOString :: "nat \<Rightarrow> string"

text \<open>
  \<open>typeError env p\<close> is the message of the TypeError the engine throws when property
  \<open>p\<close> is read from \<^verbatim>\<open>undefined\<close> or \<^verbatim>\<open>null\<close>, and \<open>convertError env\<close> the message of
  the one a failing conversion to a string throws. \<open>createReadStream env path\<close> is the
  text the read stream of the file delivers, or the error of the stream's \<^verbatim>\<open>error\<close>
  event; \<open>csv env text\<close> is what the \<^verbatim>\<open>csv()\<close> transform makes of that text, the rows of
  its \<^verbatim>\<open>data\<close> events or the error of its own \<^verbatim>\<open>error\<close> event.
  \<open>xlsx_sheet_to_json env path\<close> is \<^verbatim>\<open>XLSX.readFile\<close> followed by \<^verbatim>\<open>sheet_to_json\<close> of
  the first sheet.
\<close>

record response =
  status :: nat
  body :: jsval

subsection \<open>Tool handlers\<close>

definition text_content :: "jsval \<Rightarrow> jsval" where
  "text_content t = JObj [(''content'', JArr [JObj [(''type'', JStr ''text''), (''text'', t)]])]"

text \<open>
  The third step of \<^verbatim>\<open>handleAnalyzeData\<close>: the call of \<^verbatim>\<open>dataAnalyzer.analyze\<close> and the
  wrapping of \<^verbatim>\<open>result.answer || <default>\<close>.
\<close>

definition run_analysis :: "'llm env \<Rightarrow> dataframe \<Rightarrow> jsval \<Rightarrow> 'llm \<Rightarrow> string + jsval" where
  "run_analysis env df query llm =
     (case analyze env df query llm of
        Inl m \<Rightarrow> Inl m
      | Inr result \<Rightarrow>
          if nullish result then Inl (typeError env ''answer'')
          else Inr (text_content
                 (if truthy (get_prop result ''answer'') then get_prop result ''answer''
                  else JStr msg_analysis_done)))"

text \<open>The body of the \<^verbatim>\<open>try\<close> block of \<^verbatim>\<open>handleAnalyzeData\<close>, in the order of the source.\<close>

definition handleAnalyzeData_try ::
  "'llm env \<Rightarrow> jsval \<Rightarrow> 'llm session \<Rightarrow> (string + jsval) \<times> 'llm session" where
  "handleAnalyzeData_try env args s =
     (if nullish args then (Inl (typeError env ''query''), s)
      else
        let query = get_prop args ''query'';
            llm_config = get_prop args ''llm_config''
        in case currentDataframe s of
             None \<Rightarrow> (Inl msg_upload_first, s)
           | Some df \<Rightarrow>
               (case (if truthy llm_config
                      then (case configureLLM env llm_config of
                              Inl m \<Rightarrow> Inl m
                            | Inr h \<Rightarrow> Inr (s\<lparr>currentLLM := Some h\<rparr>))
                      else Inr s) of
                  Inl m \<Rightarrow> (Inl m, s)
                | Inr s1 \<Rightarrow>
                    (case currentLLM s1 of
                       None \<Rightarrow> (Inl msg_configure_first, s1)
                     | Some llm \<Rightarrow> (run_analysis env df query llm, s1))))"

text \<open>The \<^verbatim>\<open>catch\<close> clause rethrows every error of the block under one prefix.\<close>

definition handleAnalyzeData ::
  "'llm env \<Rightarrow> jsval \<Rightarrow> 'llm session \<Rightarrow> (string + jsval) \<times> 'llm session" where
  "handleAnalyzeData env args s =
     (case handleAnalyzeData_try env args s of
        (Inl m, s') \<Rightarrow> (Inl (msg_analysis_failed @ m), s')
      | (Inr r, s') \<Rightarrow> (Inr r, s'))"

definition handleConfigureLLM_try ::
  "'llm env \<Rightarrow> jsval \<Rightarrow> 'llm session \<Rightarrow> (string + jsval) \<times> 'llm session" where
  "handleConfigureLLM_try env args s =
     (case configureLLM env args of
        Inl m \<Rightarrow> (Inl m, s)
      | Inr h \<Rightarrow>
          let s1 = s\<lparr>currentLLM := Some h\<rparr>
          in if nullish args then (Inl (typeError env ''model''), s1)
             else (case to_string (get_prop args ''model'') of
                     None \<Rightarrow> (Inl (convertError env), s1)
                   | Some model \<Rightarrow>
                       (Inr (text_content (JStr (msg_llm_configured @ model))), s1)))"

definition handleConfigureLLM ::
  "'llm env \<Rightarrow> jsval \<Rightarrow> 'llm session \<Rightarrow> (string + jsval) \<times> 'llm session" where
  "handleConfigureLLM env args s =
     (case handleConfigureLLM_try env args s of
        (Inl m, s') \<Rightarrow> (Inl (msg_llm_failed @ m), s')
      | (Inr r, s') \<Rightarrow> (Inr r, s'))"

definition handleToolCall ::
  "'llm env \<Rightarrow> jsval \<Rightarrow> 'llm session \<Rightarrow> (string + jsval) \<times> 'llm session" where
  "handleToolCall env params s =
     (if nullish params then (Inl (typeError env ''name''), s)
      else
        let name = get_prop params ''name'';
            args = get_prop params ''arguments''
        in if name = JStr ''analyze_data'' then handleAnalyzeData env args s
           else if name = JStr ''configure_llm'' then handleConfigureLLM env args s
           else (case to_string name of
                   None \<Rightarrow> (Inl (convertError env), s)
                 | Some printed \<Rightarrow> (Inl (msg_unknown_tool @ printed), s)))"

subsection \<open>The protocol endpoint\<close>

text \<open>
  The \<^verbatim>\<open>try\<close> block of \<^verbatim>\<open>POST /mcp\<close> up to the value of \<^verbatim>\<open>result\<close>. The log line
  before the \<^verbatim>\<open>switch\<close> already converts the method to a string, so a method that
  cannot be converted throws there, whatever it is.
\<close>

definition mcp_dispatch ::
  "'llm env \<Rightarrow> jsval \<Rightarrow> 'llm session \<Rightarrow> (string + jsval) \<times> 'llm session" where
  "mcp_dispatch env req_body s =
     (if nullish req_body then (Inl (typeError env ''method''), s)
      else
        let method = get_prop req_body ''method'';
            params = (if get_prop req_body ''params'' = JUndefined then JObj []
                      else get_prop req_body ''params'')
        in case to_string method of
             None \<Rightarrow> (Inl (convertError env), s)
           | Some printed \<Rightarrow>
               if method = JStr ''initialize'' then (initialize env params, s)
               else if method = JStr ''notifications/initialized''
                 then (Inr (JObj [(''success'', JBool True)]), s)
               else if method = JStr ''tools/list'' then (listTools env, s)
               else if method = JStr ''tools/call'' then handleToolCall env params s
               else (Inl (msg_unsupported_method @ printed), s))"

definition error_envelope :: "string \<Rightarrow> jsval" where
  "error_envelope m = JObj [(''error'', JObj [(''code'', JNum ''-1''), (''message'', JStr m)])]"


definition mcp_post :: "'llm env \<Rightarrow> jsval \<Rightarrow> 'llm session \<Rightarrow> response \<times> 'llm session" where
  "mcp_post env req_body s =
     (case mcp_dispatch env req_body s of
        (Inr result, s') \<Rightarrow> (\<lparr>status = 200, body = JObj [(''result'', result)]\<rparr>, s')
      | (Inl m, s') \<Rightarrow> (\<lparr>status = 400, body = error_envelope m\<rparr>, s'))"

subsection \<open>The REST endpoints\<close>

text \<open>The file that \<^verbatim>\<open>upload.single('file')\<close> leaves in \<^verbatim>\<open>req.file\<close>.\<close>

record upfile =
  path :: string
  originalname :: string

text \<open>
  How the promise of a reader ends: resolved with the rows, rejected with an error, or
  never settled because an \<^verbatim>\<open>error\<close> event found no listener, which the runtime
  throws as an uncaught exception.
\<close>

datatype 'a settled = Resolved 'a | Rejected string | Uncaught string

text \<open>
  \<^verbatim>\<open>readCSVFile\<close> pipes the read stream into the \<^verbatim>\<open>csv()\<close> transform and puts its three
  listeners on what \<^verbatim>\<open>pipe\<close> returns, the transform. An error of the transform rejects
  the promise; an error of the read stream has no listener.
\<close>

definition readCSVFile :: "'llm env \<Rightarrow> string \<Rightarrow> (string \<times> jsval) list list settled" where
  "readCSVFile env filePath =
     (case createReadStream env filePath of
        Inl e \<Rightarrow> Uncaught e
      | Inr text \<Rightarrow> (case csv env text of Inl e \<Rightarrow> Rejected e | Inr results \<Rightarrow> Resolved results))"

text \<open>\<^verbatim>\<open>readExcelFile\<close> catches what the library throws and rejects with it.\<close>

definition readExcelFile :: "'llm env \<Rightarrow> string \<Rightarrow> (string \<times> jsval) list list settled" where
  "readExcelFile env filePath =
     (case xlsx_sheet_to_json env filePath of Inl e \<Rightarrow> Rejected e | Inr d \<Rightarrow> Resolved d)"

text \<open>
  The choice of the reader by extension; the \<^verbatim>\<open>throw\<close> of the last branch ends in the
  \<^verbatim>\<open>catch\<close> clause as a rejection does.
\<close>

definition read_data :: "'llm env \<Rightarrow> upfile \<Rightarrow> (string \<times> jsval) list list settled" where
  "read_data env f =
     (let ext = toLowerCase env (extname env (originalname f))
      in if ext = ''.csv'' then readCSVFile env (path f)
         else if ext = ''.xlsx'' \<or> ext = ''.xls'' then readExcelFile env (path f)
         else Rejected msg_bad_format)"

text \<open>The object assigned to \<^verbatim>\<open>currentDataframe\<close>.\<close>

definition make_dataframe :: "(string \<times> jsval) list list \<Rightarrow> string \<Rightarrow> dataframe" where
  "make_dataframe d name =
     \<lparr>data = d, filename = name, rows = length d,
      columns = (if length d > 0 then length (Object_keys (d ! 0)) else 0)\<rparr>"

definition error_body :: "string \<Rightarrow> jsval" where
  "error_body m = JObj [(''error'', JStr m)]"

definition upload_ok_body :: "dataframe \<Rightarrow> string \<Rightarrow> (string \<times> jsval) list list \<Rightarrow> jsval" where
  "upload_ok_body df name d =
     JObj [(''message'', JStr msg_upload_ok),
           (''filename'', JStr name),
           (''rows'', count_number (rows df)),
           (''columns'', count_number (columns df)),
           (''preview'', JArr (map JObj (take 5 d)))]"

text \<open>
  What the client gets from a request: the response sent, or none because the process
  died on an uncaught exception. The session that comes with \<open>Died\<close> is the state of
  the two variables at that moment.
\<close>

datatype reply = Sent response | Died string

definition upload_post ::
  "'llm env \<Rightarrow> upfile option \<Rightarrow> 'llm session \<Rightarrow> reply \<times> 'llm session" where
  "upload_post env req_file s =
     (case req_file of
        None \<Rightarrow> (Sent \<lparr>status = 400, body = error_body msg_choose_file\<rparr>, s)
      | Some f \<Rightarrow>
          (case read_data env f of
             Uncaught e \<Rightarrow> (Died e, s)
           | Rejected m \<Rightarrow> (Sent \<lparr>status = 500, body = error_body m\<rparr>, s)
           | Resolved d \<Rightarrow>
               let df = make_dataframe d (originalname f);
                   s1 = s\<lparr>currentDataframe := Some df\<rparr>
               in (case unlinkSync env (path f) of
                     Inl m \<Rightarrow> (Sent \<lparr>status = 500, body = error_body m\<rparr>, s1)
                   | Inr u \<Rightarrow>
                       (Sent \<lparr>status = 200, body = upload_ok_body df (originalname f) d\<rparr>,
                        s1))))"


definition analyze_post :: "'llm env \<Rightarrow> jsval \<Rightarrow> 'llm session \<Rightarrow> response \<times> 'llm session" where
  "analyze_post env req_body s =
     (if nullish req_body then (\<lparr>status = 500, body = error_body (typeError env ''query'')\<rparr>, s)
      else
        let query = get_prop req_body ''query'';
            llm_config = get_prop req_body ''llm_config''
        in if \<not> truthy query then (\<lparr>status = 400, body = error_body msg_need_query\<rparr>, s)
           else
             (case handleAnalyzeData env
                     (JObj [(''query'', query), (''llm_config'', llm_config)]) s of
                (Inr result, s') \<Rightarrow> (\<lparr>status = 200, body = result\<rparr>, s')
              | (Inl m, s') \<Rightarrow> (\<lparr>status = 500, body = error_body m\<rparr>, s')))"

definition configure_post :: "'llm env \<Rightarrow> jsval \<Rightarrow> 'llm session \<Rightarrow> response \<times> 'llm session" where
  "configure_post env req_body s =
     (case handleConfigureLLM env req_body s of
        (Inr result, s') \<Rightarrow> (\<lparr>status = 200, body = result\<rparr>, s')
      | (Inl m, s') \<Rightarrow> (\<lparr>status = 500, body = error_body m\<rparr>, s'))"

subsection \<open>The service as a whole\<close>

text \<open>
  The requests that can change the session, and the service answering a sequence of
  them one after the other from the state at process start, for as long as the process
  lives. Each request comes with the collaborators as they behave when it is served.
\<close>

datatype request =
    PostMcp jsval
  | PostUpload "upfile option"
  | PostAnalyze jsval
  | PostConfigureLLM jsval

definition sent :: "response \<times> 'llm session \<Rightarrow> reply \<times> 'llm session" where
  "sent rs = (Sent (fst rs), snd rs)"

definition serve :: "'llm env \<Rightarrow> request \<Rightarrow> 'llm session \<Rightarrow> reply \<times> 'llm session" where
  "serve env r s =
     (case r of
        PostMcp b \<Rightarrow> sent (mcp_post env b s)
      | PostUpload f \<Rightarrow> upload_post env f s
      | PostAnalyze b \<Rightarrow> sent (analyze_post env b s)
      | PostConfigureLLM b \<Rightarrow> sent (configure_post env b s))"

definition initial_session :: "'llm session" where
  "initial_session = \<lparr>currentDataframe = None, currentLLM = None\<rparr>"

fun serve_all :: "('llm env \<times> request) list \<Rightarrow> 'llm session \<Rightarrow> 'llm session" where
  "serve_all [] s = s"
| "serve_all ((env, r) # rs) s =
     (case serve env r s of
        (Sent response, s') \<Rightarrow> serve_all rs s'
      | (Died e, s') \<Rightarrow> s')"


text \<open>The counts of a stored dataset agree with its rows.\<close>

definition counts_agree :: "dataframe \<Rightarrow> bool" where
  "counts_agree df =
     (rows df = length (data df)
      \<and> columns df = (case data df of [] \<Rightarrow> 0 | r # rs \<Rightarrow> length (Object_keys r)))"

definition dataset_ok :: "'llm session \<Rightarrow> bool" where
  "dataset_ok s = (case currentDataframe s of None \<Rightarrow> True | Some df \<Rightarrow> counts_agree df)"

subsection \<open>The event stream\<close>

text \<open>
  One connection of \<^verbatim>\<open>GET /sse\<close>. \<open>written\<close> holds the objects whose JSON text the
  handler and its timer callbacks have written to the response, oldest first. The two
  slots are the timers behind the handles \<^verbatim>\<open>heartbeat\<close> and \<^verbatim>\<open>statusInterval\<close>;
  \<open>None\<close> is a timer not yet set or cleared. Time is the clock of the event loop in
  milliseconds, and a timer's callback runs at the instant the timer is due.
\<close>

record timer =
  interval :: nat
  due :: nat

record conn =
  written :: "jsval list"
  heartbeat :: "timer option"
  statusInterval :: "timer option"

text \<open>The runtime replaces a delay under one millisecond or over \<open>2^31 - 1\<close> by one.\<close>

definition delay_of :: "nat \<Rightarrow> nat" where
  "delay_of ms = (if ms < 1 \<or> 2147483647 < ms then 1 else ms)"

definition setInterval :: "nat \<Rightarrow> nat \<Rightarrow> timer" where
  "setInterval now ms = \<lparr>interval = ms, due = now + delay_of ms\<rparr>"

definition rearm :: "timer \<Rightarrow> timer" where
  "rearm t = t\<lparr>due := due t + delay_of (interval t)\<rparr>"

definition connection_event :: "'llm env \<Rightarrow> nat \<Rightarrow> jsval" where
  "connection_event env now =
     JObj [(''type'', JStr ''connection''),
           (''message'', JStr msg_connected),
           (''timestamp'', JStr (toISOString env now))]"

definition heartbeat_event :: "'llm env \<Rightarrow> nat \<Rightarrow> jsval" where
  "heartbeat_event env now =
     JObj [(''type'', JStr ''heartbeat''),
           (''timestamp'', JStr (toISOString env now))]"

definition status_event :: "'llm env \<Rightarrow> nat \<Rightarrow> 'llm session \<Rightarrow> jsval" where
  "status_event env now s =
     JObj [(''type'', JStr ''status''),
           (''data'',
            JObj [(''service'', JStr ''PandasAI MCP Service''),
                  (''version'', JStr ''1.0.0''),
                  (''status'', JStr ''running''),
                  (''dataLoaded'', JBool (currentDataframe s \<noteq> None)),
                  (''llmConfigured'', JBool (currentLLM s \<noteq> None)),
                  (''timestamp'', JStr (toISOString env now))])]"

definition sendStatus :: "'llm env \<Rightarrow> nat \<Rightarrow> 'llm session \<Rightarrow> conn \<Rightarrow> conn" where
  "sendStatus env now s c = c\<lparr>written := written c @ [status_event env now s]\<rparr>"

text \<open>The handler of \<^verbatim>\<open>GET /sse\<close>, statement by statement.\<close>

definition sse_get :: "'llm env \<Rightarrow> nat \<Rightarrow> 'llm session \<Rightarrow> conn" where
  "sse_get env now s =
     (let c0 = \<lparr>written = [connection_event env now], heartbeat = None, statusInterval = None\<rparr>;
          c1 = c0\<lparr>heartbeat := Some (setInterval now 30000)\<rparr>;
          c2 = sendStatus env now s c1;
          c3 = c2\<lparr>statusInterval := Some (setInterval now 60000)\<rparr>
      in c3)"

text \<open>The listener of the request's \<^verbatim>\<open>close\<close> event.\<close>

definition on_close :: "conn \<Rightarrow> conn" where
  "on_close c = c\<lparr>heartbeat := None, statusInterval := None\<rparr>"

text \<open>
  The event loop on this connection's timers. A timer that is set runs its callback
  when due and is armed again one interval later. \<open>sess t\<close> is the session as the
  other requests have left it at time \<open>t\<close>, which is what \<^verbatim>\<open>sendStatus\<close> reads.
\<close>

datatype timer_id = HeartbeatTimer | StatusTimer

definition fire :: "'llm env \<Rightarrow> (nat \<Rightarrow> 'llm session) \<Rightarrow> timer_id \<Rightarrow> conn \<Rightarrow> conn" where
  "fire env sess k c =
     (case k of
        HeartbeatTimer \<Rightarrow>
          (case heartbeat c of
             None \<Rightarrow> c
           | Some t \<Rightarrow> c\<lparr>written := written c @ [heartbeat_event env (due t)],
                         heartbeat := Some (rearm t)\<rparr>)
      | StatusTimer \<Rightarrow>
          (case statusInterval c of
             None \<Rightarrow> c
           | Some t \<Rightarrow> (sendStatus env (due t) (sess (due t)) c)
                         \<lparr>statusInterval := Some (rearm t)\<rparr>))"

text \<open>The timer to run next: the one due first, the one set first when both are due together.\<close>

definition next_timer :: "conn \<Rightarrow> (timer_id \<times> nat) option" where
  "next_timer c =
     (case heartbeat c of
        None \<Rightarrow> (case statusInterval c of
                   None \<Rightarrow> None
                 | Some t \<Rightarrow> Some (StatusTimer, due t))
      | Some h \<Rightarrow> (case statusInterval c of
                     None \<Rightarrow> Some (HeartbeatTimer, due h)
                   | Some t \<Rightarrow> if due h \<le> due t then Some (HeartbeatTimer, due h)
                               else Some (StatusTimer, due t)))"

definition pending :: "nat \<Rightarrow> timer option \<Rightarrow> nat" where
  "pending T slot = (case slot of None \<Rightarrow> 0 | Some t \<Rightarrow> Suc T - due t)"

text \<open>Run every callback that is due up to time \<open>T\<close>, in order.\<close>

function run_timers :: "'llm env \<Rightarrow> (nat \<Rightarrow> 'llm session) \<Rightarrow> nat \<Rightarrow> conn \<Rightarrow> conn" where
  "run_timers env sess T c =
     (case next_timer c of
        None \<Rightarrow> c
      | Some (k, d) \<Rightarrow> if d \<le> T then run_timers env sess T (fire env sess k c) else c)"
  by pat_completeness auto
termination
proof (relation "measure (\<lambda>(env, sess, T, c). pending T (heartbeat c) + pending T (statusInterval c))",
       goal_cases)
  case 1
  show ?case by simp
next
  case (2 env sess T c x2 k d)
  have dec: "pending T (Some (rearm t)) < pending T (Some t)" if "due t \<le> T" for t
    using that by (auto simp: pending_def rearm_def delay_of_def)
  show ?case
  proof (cases k)
    case HeartbeatTimer
    with 2 obtain h where "heartbeat c = Some h" and "due h \<le> T"
      by (auto simp: next_timer_def split: option.splits if_splits)
    with dec [of h] HeartbeatTimer show ?thesis
      by (simp add: fire_def)
  next
    case StatusTimer
    with 2 obtain t where "statusInterval c = Some t" and "due t \<le> T"
      by (auto simp: next_timer_def split: option.splits if_splits)
    with dec [of t] StatusTimer show ?thesis
      by (simp add: fire_def sendStatus_def)
  qed
qed

text \<open>The events of one type, as a subscriber filtering on \<^verbatim>\<open>type\<close> sees them.\<close>

definition is_type :: "string \<Rightarrow> jsval \<Rightarrow> bool" where
  "is_type ty ev = (get_prop ev ''type'' = JStr ty)"

text \<open>
  The instants up to \<open>T\<close> at which a timer slot is due: none for an empty slot,
  otherwise the due time and every whole number of delays after it.
\<close>

definition due_times :: "nat \<Rightarrow> timer option \<Rightarrow> nat list" where
  "due_times T slot =
     (case slot of
        None \<Rightarrow> []
      | Some t \<Rightarrow>
          map (\<lambda>k. due t + k * delay_of (interval t))
            [0..<(if due t \<le> T then Suc ((T - due t) div delay_of (interval t)) else 0)])"

subsection \<open>A concrete service for evaluation\<close>

text \<open>
  Collaborators and inputs on which the theorems below are run: the two-row table
  \<^verbatim>\<open>name,age / Alice,30 / Bob,25\<close>, a configurator that always returns the handle \<open>7\<close>,
  an analyzer that always answers, and a clock that prints its reading in decimal.
\<close>

definition demo_rows :: "(string \<times> jsval) list list" where
  "demo_rows = [[(''name'', JStr ''Alice''), (''age'', JStr ''30'')],
                [(''name'', JStr ''Bob''), (''age'', JStr ''25'')]]"

definition six_rows :: "(string \<times> jsval) list list" where
  "six_rows = [[(''n'', JStr ''1'')], [(''n'', JStr ''2'')], [(''n'', JStr ''3'')],
               [(''n'', JStr ''4'')], [(''n'', JStr ''5'')], [(''n'', JStr ''6'')]]"

definition people_text :: string where
  "people_text = ''name,age'' @ [CHR 0x0A] @ ''Alice,30'' @ [CHR 0x0A] @ ''Bob,25''"

definition six_text :: string where
  "six_text = ''n'' @ [CHR 0x0A] @ ''1'' @ [CHR 0x0A] @ ''2'' @ [CHR 0x0A] @ ''3''
                @ [CHR 0x0A] @ ''4'' @ [CHR 0x0A] @ ''5'' @ [CHR 0x0A] @ ''6''"

text \<open>
  The files on disk: three readable tables, an empty file and a file whose second line
  is longer than its header. Any other path cannot be opened.
\<close>

definition demo_read_stream :: "string \<Rightarrow> string + string" where
  "demo_read_stream p =
     (if p = ''uploads/1-people.csv'' then Inr people_text
      else if p = ''uploads/3-six.csv'' then Inr six_text
      else if p = ''uploads/4-empty.csv'' then Inr []
      else if p = ''uploads/6-bad.csv'' then Inr (''a'' @ [CHR 0x0A] @ ''1,2'')
      else Inl ''ENOENT'')"

definition demo_csv :: "string \<Rightarrow> string + (string \<times> jsval) list list" where
  "demo_csv text =
     (if text = people_text then Inr demo_rows
      else if text = six_text then Inr six_rows
      else if text = [] then Inr []
      else Inl ''Row length does not match headers'')"

definition demo_extname :: "string \<Rightarrow> string" where
  "demo_extname n =
     (if CHR ''.'' \<in> set n then CHR ''.'' # rev (takeWhile (\<lambda>c. c \<noteq> CHR ''.'') (rev n))
      else [])"

definition demo_env :: "nat env" where
  "demo_env =
     \<lparr>initialize = (\<lambda>p. Inr (JObj [(''protocolVersion'', JStr ''2024-11-05'')])),
      listTools = Inr (JObj [(''tools'', JArr [])]),
      configureLLM = (\<lambda>cfg. Inr 7),
      analyze = (\<lambda>df q llm. Inr (JObj [(''answer'', JStr ''2 rows'')])),
      typeError = (\<lambda>p. ''Cannot read properties of undefined''),
      convertError = ''Cannot convert object to primitive value'',
      extname = demo_extname,
      toLowerCase = (\<lambda>e. e),
      createReadStream = demo_read_stream,
      csv = demo_csv,
      xlsx_sheet_to_json = (\<lambda>p. Inl ''File is password-protected''),
      unlinkSync = (\<lambda>p. Inr ()),
      toISOString = (\<lambda>t. nat_digits t [])\<rparr>"

definition env_config_fails :: "nat env" where
  "env_config_fails = demo_env\<lparr>configureLLM := (\<lambda>cfg. Inl ''invalid api key'')\<rparr>"

definition env_analysis_fails :: "nat env" where
  "env_analysis_fails = demo_env\<lparr>analyze := (\<lambda>df q llm. Inl ''timeout'')\<rparr>"

definition demo_args :: jsval where
  "demo_args = JObj [(''query'', JStr ''count rows''),
                     (''llm_config'', JObj [(''model'', JStr ''gpt-4'')])]"

definition query_only_args :: jsval where
  "query_only_args = JObj [(''query'', JStr ''count rows'')]"

definition session_no_data :: "nat session" where
  "session_no_data = \<lparr>currentDataframe = None, currentLLM = Some 1\<rparr>"

definition session_no_backend :: "nat session" where
  "session_no_backend =
     \<lparr>currentDataframe = Some (make_dataframe demo_rows ''people.csv''), currentLLM = None\<rparr>"

definition session_loaded :: "nat session" where
  "session_loaded =
     \<lparr>currentDataframe = Some (make_dataframe demo_rows ''people.csv''), currentLLM = Some 1\<rparr>"

definition people_csv :: upfile where
  "people_csv = \<lparr>path = ''uploads/1-people.csv'', originalname = ''people.csv''\<rparr>"

definition missing_csv :: upfile where
  "missing_csv = \<lparr>path = ''uploads/2-gone.csv'', originalname = ''gone.csv''\<rparr>"

definition six_csv :: upfile where
  "six_csv = \<lparr>path = ''uploads/3-six.csv'', originalname = ''six.csv''\<rparr>"

definition empty_csv :: upfile where
  "empty_csv = \<lparr>path = ''uploads/4-empty.csv'', originalname = ''empty.csv''\<rparr>"

definition book_xlsx :: upfile where
  "book_xlsx = \<lparr>path = ''uploads/5-book.xlsx'', originalname = ''book.xlsx''\<rparr>"

definition bad_csv :: upfile where
  "bad_csv = \<lparr>path = ''uploads/6-bad.csv'', originalname = ''bad.csv''\<rparr>"

definition session_six :: "nat session" where
  "session_six =
     \<lparr>currentDataframe = Some (make_dataframe six_rows ''six.csv''), currentLLM = Some 1\<rparr>"

text \<open>A session history: a table is there from the start, a backend from the 70th second.\<close>

definition demo_timeline :: "nat \<Rightarrow> nat session" where
  "demo_timeline t = (if t < 70000 then session_no_backend else session_loaded)"

section \<open>Properties\<close>

subsection \<open>Protocol dispatch\<close>

text \<open>The conversion of a template literal on some values a request can carry.\<close>

lemma to_string_examples:
  "to_string (JStr ''resources/list'') = Some ''resources/list''"
  "to_string JUndefined = Some ''undefined''"
  "to_string (JNum ''1e+21'') = Some ''1e+21''"
  "to_string (JArr [JNum ''1'', JNull, JArr [JStr ''a'', JBool True]]) = Some ''1,,a,true''"
  "to_string (JObj [(''id'', JNum ''1'')]) = Some ''[object Object]''"
  "to_string (JObj [(''toString'', JNum ''1'')]) = None"
  "to_string (JArr [JObj [(''toString'', JNull)]]) = None"
  by simp_all



text \<open>
  C7. A \<^verbatim>\<open>tools/call\<close> whose tool name is neither \<^verbatim>\<open>analyze_data\<close> nor
  \<^verbatim>\<open>configure_llm\<close> fails in \<^verbatim>\<open>handleToolCall\<close> and leaves the session as it was. When
  the name is a string, the error message is the unknown-tool text followed by that
  name, and the endpoint returns this message in its error envelope with status 400.
\<close>

theorem unknown_tool_named:
  assumes "\<not> nullish params"
    and "get_prop params ''name'' \<notin> {JStr ''analyze_data'', JStr ''configure_llm''}"
  shows "(\<exists>message. handleToolCall env params s = (Inl message, s))
       \<and> (get_prop params ''name'' = JStr n \<longrightarrow>
            handleToolCall env params s = (Inl (msg_unknown_tool @ n), s)
          \<and> mcp_post env (JObj [(''method'', JStr ''tools/call''), (''params'', params)]) s =
              (\<lparr>status = 400,
                body = JObj [(''error'',
                         JObj [(''code'', JNum ''-1''),
                               (''message'', JStr (msg_unknown_tool @ n))])]\<rparr>,
               s))"
proof -
  have general: "\<exists>message. handleToolCall env params s = (Inl message, s)"
    using assms by (auto simp: handleToolCall_def Let_def split: option.splits)
  have "params \<noteq> JUndefined"
    using assms(1) by (simp add: nullish_def)
  then have route: "mcp_dispatch env (JObj [(''method'', JStr ''tools/call''), (''params'', params)]) s
                      = handleToolCall env params s"
    by (simp add: mcp_dispatch_def nullish_def)
  have "handleToolCall env params s = (Inl (msg_unknown_tool @ n), s)
          \<and> mcp_post env (JObj [(''method'', JStr ''tools/call''), (''params'', params)]) s =
              (\<lparr>status = 400,
                body = JObj [(''error'',
                         JObj [(''code'', JNum ''-1''),
                               (''message'', JStr (msg_unknown_tool @ n))])]\<rparr>,
               s)"
    if name: "get_prop params ''name'' = JStr n"
  proof -
    from name assms have "handleToolCall env params s = (Inl (msg_unknown_tool @ n), s)"
      by (simp add: handleToolCall_def Let_def)
    with route show ?thesis
      by (simp add: mcp_post_def error_envelope_def)
  qed
  with general show ?thesis
    by blast
qed

theorem unknown_tool_named_witness:
  "\<not> nullish (JObj [(''name'', JStr ''drop_table''), (''arguments'', JObj [])])
   \<and> get_prop (JObj [(''name'', JStr ''drop_table''), (''arguments'', JObj [])]) ''name'' \<notin>
        {JStr ''analyze_data'', JStr ''configure_llm''}
   \<and> get_prop (JObj [(''name'', JStr ''drop_table''), (''arguments'', JObj [])]) ''name''
        = JStr ''drop_table''
   \<and> handleToolCall demo_env
        (JObj [(''name'', JStr ''drop_table''), (''arguments'', JObj [])]) session_loaded =
        (Inl (msg_unknown_tool @ ''drop_table''), session_loaded)
   \<and> mcp_post demo_env
        (JObj [(''method'', JStr ''tools/call''),
               (''params'', JObj [(''name'', JStr ''drop_table''), (''arguments'', JObj [])])])
        session_loaded =
        (\<lparr>status = 400,
          body = JObj [(''error'',
                   JObj [(''code'', JNum ''-1''),
                         (''message'', JStr (msg_unknown_tool @ ''drop_table''))])]\<rparr>,
         session_loaded)
   \<and> handleToolCall demo_env (JObj [(''name'', JObj [(''toString'', JNum ''1'')])]) session_loaded =
        (Inl ''Cannot convert object to primitive value'', session_loaded)"
proof -
  let ?params = "JObj [(''name'', JStr ''drop_table''), (''arguments'', JObj [])]"
  have a: "\<not> nullish ?params"
    and b: "get_prop ?params ''name'' \<notin> {JStr ''analyze_data'', JStr ''configure_llm''}"
    and c: "get_prop ?params ''name'' = JStr ''drop_table''"
    by (simp_all add: nullish_def)
  from unknown_tool_named [OF a b, of demo_env session_loaded "''drop_table''"] c
  have d: "handleToolCall demo_env ?params session_loaded =
             (Inl (msg_unknown_tool @ ''drop_table''), session_loaded)"
    and e: "mcp_post demo_env (JObj [(''method'', JStr ''tools/call''), (''params'', ?params)])
              session_loaded =
        (\<lparr>status = 400,
          body = JObj [(''error'',
                   JObj [(''code'', JNum ''-1''),
                         (''message'', JStr (msg_unknown_tool @ ''drop_table''))])]\<rparr>,
         session_loaded)"
    by blast+
  have f: "handleToolCall demo_env (JObj [(''name'', JObj [(''toString'', JNum ''1'')])])
             session_loaded =
        (Inl ''Cannot convert object to primitive value'', session_loaded)"
    by (simp add: handleToolCall_def nullish_def demo_env_def)
  from a b c d e f show ?thesis
    by blast
qed

subsection \<open>The analysis tool\<close>

text \<open>
  C2. \<^verbatim>\<open>handleAnalyzeData\<close>, called with an arguments object, checks the dataset first:
  with no dataset it fails with the upload-a-file-first message whatever the backend and
  the inline configuration are, and leaves the session as it was. With a dataset, no
  backend and no (truthy) inline configuration it fails with the configure-first message.
  In the three remaining cases the configure-first check does not fail: the outcome is
  that of the analysis, run with the stored or the freshly configured backend, or the
  failure of the configurator. Every failure carries the prefix of the \<^verbatim>\<open>catch\<close> clause.
\<close>

theorem analyze_precondition_order:
  assumes "\<not> nullish args"
  shows "(currentDataframe s = None \<longrightarrow>
            handleAnalyzeData env args s = (Inl (msg_analysis_failed @ msg_upload_first), s))
       \<and> (currentDataframe s \<noteq> None \<and> currentLLM s = None
            \<and> \<not> truthy (get_prop args ''llm_config'') \<longrightarrow>
            handleAnalyzeData env args s = (Inl (msg_analysis_failed @ msg_configure_first), s))
       \<and> (currentDataframe s = Some df \<and> currentLLM s = Some llm
            \<and> \<not> truthy (get_prop args ''llm_config'') \<longrightarrow>
            handleAnalyzeData env args s =
              (case run_analysis env df (get_prop args ''query'') llm of
                 Inl m \<Rightarrow> Inl (msg_analysis_failed @ m)
               | Inr r \<Rightarrow> Inr r,
               s))
       \<and> (currentDataframe s = Some df \<and> truthy (get_prop args ''llm_config'')
            \<and> configureLLM env (get_prop args ''llm_config'') = Inr h \<longrightarrow>
            handleAnalyzeData env args s =
              (case run_analysis env df (get_prop args ''query'') h of
                 Inl m \<Rightarrow> Inl (msg_analysis_failed @ m)
               | Inr r \<Rightarrow> Inr r,
               s\<lparr>currentLLM := Some h\<rparr>))
       \<and> (currentDataframe s = Some df \<and> truthy (get_prop args ''llm_config'')
            \<and> configureLLM env (get_prop args ''llm_config'') = Inl e \<longrightarrow>
            handleAnalyzeData env args s = (Inl (msg_analysis_failed @ e), s))"
  using assms
  by (auto simp: handleAnalyzeData_def handleAnalyzeData_try_def Let_def split: sum.splits)

theorem analyze_precondition_order_witness:
  "\<not> nullish demo_args \<and> currentDataframe session_no_data = None
   \<and> currentLLM session_no_data = Some 1
   \<and> handleAnalyzeData demo_env demo_args session_no_data =
        (Inl (msg_analysis_failed @ msg_upload_first), session_no_data)
   \<and> \<not> nullish query_only_args \<and> currentDataframe session_no_backend \<noteq> None
   \<and> currentLLM session_no_backend = None
   \<and> \<not> truthy (get_prop query_only_args ''llm_config'')
   \<and> handleAnalyzeData demo_env query_only_args session_no_backend =
        (Inl (msg_analysis_failed @ msg_configure_first), session_no_backend)
   \<and> currentLLM session_loaded = Some 1
   \<and> handleAnalyzeData demo_env query_only_args session_loaded =
        (Inr (text_content (JStr ''2 rows'')), session_loaded)
   \<and> truthy (get_prop demo_args ''llm_config'')
   \<and> configureLLM demo_env (get_prop demo_args ''llm_config'') = Inr 7
   \<and> handleAnalyzeData demo_env demo_args session_no_backend =
        (Inr (text_content (JStr ''2 rows'')), session_no_backend\<lparr>currentLLM := Some 7\<rparr>)
   \<and> configureLLM env_config_fails (get_prop demo_args ''llm_config'') = Inl ''invalid api key''
   \<and> handleAnalyzeData env_config_fails demo_args session_loaded =
        (Inl (msg_analysis_failed @ ''invalid api key''), session_loaded)"
proof -
  let ?df = "make_dataframe demo_rows ''people.csv''"
  have a: "\<not> nullish demo_args" and a': "truthy (get_prop demo_args ''llm_config'')"
    by (simp_all add: nullish_def demo_args_def)
  have b: "\<not> nullish query_only_args" and b': "\<not> truthy (get_prop query_only_args ''llm_config'')"
    by (simp_all add: nullish_def query_only_args_def)
  have c: "currentDataframe session_no_data = None" "currentLLM session_no_data = Some 1"
    by (simp_all add: session_no_data_def)
  have d: "currentDataframe session_no_backend = Some ?df" "currentLLM session_no_backend = None"
    by (simp_all add: session_no_backend_def)
  have e: "currentDataframe session_loaded = Some ?df" "currentLLM session_loaded = Some 1"
    by (simp_all add: session_loaded_def)
  have f: "configureLLM demo_env (get_prop demo_args ''llm_config'') = Inr 7"
    by (simp add: demo_env_def)
  have r: "run_analysis demo_env ?df q h = Inr (text_content (JStr ''2 rows''))" for q h
    by (simp add: run_analysis_def demo_env_def nullish_def)
  from analyze_precondition_order [OF a, of session_no_data demo_env] c
  have g1: "handleAnalyzeData demo_env demo_args session_no_data =
              (Inl (msg_analysis_failed @ msg_upload_first), session_no_data)"
    by blast
  from analyze_precondition_order [OF b, of session_no_backend demo_env] b' d
  have g2: "handleAnalyzeData demo_env query_only_args session_no_backend =
              (Inl (msg_analysis_failed @ msg_configure_first), session_no_backend)"
    by simp
  from analyze_precondition_order [OF b, of session_loaded demo_env ?df 1] b' e
  have "handleAnalyzeData demo_env query_only_args session_loaded =
          (case run_analysis demo_env ?df (get_prop query_only_args ''query'') 1 of
             Inl m \<Rightarrow> Inl (msg_analysis_failed @ m)
           | Inr r \<Rightarrow> Inr r,
           session_loaded)"
    by blast
  then have g3: "handleAnalyzeData demo_env query_only_args session_loaded =
                   (Inr (text_content (JStr ''2 rows'')), session_loaded)"
    by (simp add: r)
  from analyze_precondition_order [OF a, of session_no_backend demo_env ?df 1 7] a' d f
  have "handleAnalyzeData demo_env demo_args session_no_backend =
          (case run_analysis demo_env ?df (get_prop demo_args ''query'') 7 of
             Inl m \<Rightarrow> Inl (msg_analysis_failed @ m)
           | Inr r \<Rightarrow> Inr r,
           session_no_backend\<lparr>currentLLM := Some 7\<rparr>)"
    by blast
  then have g4: "handleAnalyzeData demo_env demo_args session_no_backend =
                   (Inr (text_content (JStr ''2 rows'')),
                    session_no_backend\<lparr>currentLLM := Some 7\<rparr>)"
    by (simp add: r)
  have f': "configureLLM env_config_fails (get_prop demo_args ''llm_config'') = Inl ''invalid api key''"
    by (simp add: env_config_fails_def)
  from analyze_precondition_order
         [OF a, of session_loaded env_config_fails ?df 1 7 "''invalid api key''"] a' e f'
  have g5: "handleAnalyzeData env_config_fails demo_args session_loaded =
              (Inl (msg_analysis_failed @ ''invalid api key''), session_loaded)"
    by blast
  from d have d': "currentDataframe session_no_backend \<noteq> None"
    by simp
  from a a' b b' c d d' e f f' g1 g2 g3 g4 g5 show ?thesis
    by blast
qed

text \<open>
  C3 in the wording of the specification (the inline configuration is stored before the
  preconditions are checked, hence also with no dataset loaded) does not hold: the
  dataset check stands before the inline configuration. Here no dataset is loaded, the
  configurator would return the handle \<open>7\<close>, and the backend stays the old handle \<open>1\<close>.
\<close>

theorem inline_config_not_stored_without_dataset:
  "truthy (get_prop demo_args ''llm_config'')
   \<and> configureLLM demo_env (get_prop demo_args ''llm_config'') = Inr 7
   \<and> currentDataframe session_no_data = None
   \<and> currentLLM (snd (handleAnalyzeData demo_env demo_args session_no_data)) = Some 1
   \<and> currentLLM (snd (handleAnalyzeData demo_env demo_args session_no_data)) \<noteq> Some 7"
  by (simp add: handleAnalyzeData_def handleAnalyzeData_try_def demo_args_def demo_env_def
        session_no_data_def nullish_def)

text \<open>
  C3 as the code has it. For a call with a truthy inline configuration: when a dataset is loaded
  and the configurator returns a handle, the session after the call holds that handle in
  place of whatever backend it held, whether or not the analysis then succeeds, and a
  later call without inline configuration runs the analysis with it. When no dataset is
  loaded the session is unchanged.
\<close>

theorem inline_config_stored_when_dataset_loaded:
  assumes "\<not> nullish args" and "truthy (get_prop args ''llm_config'')"
  shows "(currentDataframe s = Some df
            \<and> configureLLM env (get_prop args ''llm_config'') = Inr h \<longrightarrow>
          snd (handleAnalyzeData env args s) = s\<lparr>currentLLM := Some h\<rparr>)
       \<and> (currentDataframe s = Some df
            \<and> configureLLM env (get_prop args ''llm_config'') = Inr h
            \<and> \<not> nullish args2 \<and> \<not> truthy (get_prop args2 ''llm_config'') \<longrightarrow>
          handleAnalyzeData env args2 (snd (handleAnalyzeData env args s)) =
            (case run_analysis env df (get_prop args2 ''query'') h of
               Inl m \<Rightarrow> Inl (msg_analysis_failed @ m)
             | Inr r \<Rightarrow> Inr r,
             s\<lparr>currentLLM := Some h\<rparr>))
       \<and> (currentDataframe s = None \<longrightarrow> snd (handleAnalyzeData env args s) = s)"
  using assms
  by (auto simp: handleAnalyzeData_def handleAnalyzeData_try_def Let_def split: sum.splits)

theorem inline_config_stored_when_dataset_loaded_witness:
  "\<not> nullish demo_args \<and> truthy (get_prop demo_args ''llm_config'')
   \<and> currentDataframe session_loaded = Some (make_dataframe demo_rows ''people.csv'')
   \<and> configureLLM demo_env (get_prop demo_args ''llm_config'') = Inr 7
   \<and> snd (handleAnalyzeData demo_env demo_args session_loaded)
        = session_loaded\<lparr>currentLLM := Some 7\<rparr>
   \<and> \<not> nullish query_only_args \<and> \<not> truthy (get_prop query_only_args ''llm_config'')
   \<and> handleAnalyzeData demo_env query_only_args
        (snd (handleAnalyzeData demo_env demo_args session_loaded))
        = (Inr (text_content (JStr ''2 rows'')), session_loaded\<lparr>currentLLM := Some 7\<rparr>)
   \<and> currentDataframe session_no_data = None
   \<and> snd (handleAnalyzeData demo_env demo_args session_no_data) = session_no_data"
proof -
  let ?df = "make_dataframe demo_rows ''people.csv''"
  have a: "\<not> nullish demo_args" and b: "truthy (get_prop demo_args ''llm_config'')"
    by (simp_all add: nullish_def demo_args_def)
  have c: "currentDataframe session_loaded = Some ?df"
    by (simp add: session_loaded_def)
  have d: "configureLLM demo_env (get_prop demo_args ''llm_config'') = Inr 7"
    by (simp add: demo_env_def)
  have e: "\<not> nullish query_only_args" "\<not> truthy (get_prop query_only_args ''llm_config'')"
    by (simp_all add: nullish_def query_only_args_def)
  have f: "currentDataframe session_no_data = None"
    by (simp add: session_no_data_def)
  have r: "run_analysis demo_env ?df (get_prop query_only_args ''query'') 7
             = Inr (text_content (JStr ''2 rows''))"
    by (simp add: run_analysis_def demo_env_def nullish_def)
  note loaded = inline_config_stored_when_dataset_loaded
                  [OF a b, of session_loaded ?df demo_env 7 query_only_args]
  from loaded c d
  have g: "snd (handleAnalyzeData demo_env demo_args session_loaded)
             = session_loaded\<lparr>currentLLM := Some 7\<rparr>"
    by blast
  from loaded c d e
  have "handleAnalyzeData demo_env query_only_args
          (snd (handleAnalyzeData demo_env demo_args session_loaded))
          = (case run_analysis demo_env ?df (get_prop query_only_args ''query'') 7 of
               Inl m \<Rightarrow> Inl (msg_analysis_failed @ m)
             | Inr r \<Rightarrow> Inr r,
             session_loaded\<lparr>currentLLM := Some 7\<rparr>)"
    by blast
  then have h: "handleAnalyzeData demo_env query_only_args
              (snd (handleAnalyzeData demo_env demo_args session_loaded))
             = (Inr (text_content (JStr ''2 rows'')), session_loaded\<lparr>currentLLM := Some 7\<rparr>)"
    by (simp add: r)
  from inline_config_stored_when_dataset_loaded [OF a b, of session_no_data] f
  have k: "snd (handleAnalyzeData demo_env demo_args session_no_data) = session_no_data"
    by blast
  from a b c d e f g h k show ?thesis
    by blast
qed

text \<open>
  C5 in the wording of the specification (one prefix for a failure of the inline
  configuration, another for a failure of the analysis) does not hold: inside
  \<^verbatim>\<open>handleAnalyzeData\<close> one \<^verbatim>\<open>catch\<close> clause rethrows every error under the
  analysis-failed prefix. A failing inline configuration and a failing analysis both come
  back under that prefix, and neither message starts with the configuration-failed prefix.
\<close>

theorem analyze_data_single_prefix:
  "fst (handleAnalyzeData env_config_fails demo_args session_loaded)
     = Inl (msg_analysis_failed @ ''invalid api key'')
   \<and> \<not> prefix msg_llm_failed (msg_analysis_failed @ ''invalid api key'')
   \<and> fst (handleAnalyzeData env_analysis_fails demo_args session_loaded)
     = Inl (msg_analysis_failed @ ''timeout'')
   \<and> \<not> prefix msg_llm_failed (msg_analysis_failed @ ''timeout'')"
  by (simp add: handleAnalyzeData_def handleAnalyzeData_try_def run_analysis_def demo_args_def
        demo_env_def env_config_fails_def env_analysis_fails_def session_loaded_def nullish_def
        msg_llm_failed_def msg_analysis_failed_def)

text \<open>
  C5 as the code has it. With a dataset loaded, a failure of the inline configuration and a failure
  of the analyzer (with the inline or with the stored backend) are rethrown by
  \<^verbatim>\<open>handleAnalyzeData\<close> as the analysis-failed prefix followed by the original message.
  The configuration-failed prefix is the one \<^verbatim>\<open>handleConfigureLLM\<close> puts before a
  failure of the configurator.
\<close>

theorem analyze_failures_prefixed:
  assumes "\<not> nullish args" and "currentDataframe s = Some df"
  shows "(truthy (get_prop args ''llm_config'')
            \<and> configureLLM env (get_prop args ''llm_config'') = Inl m \<longrightarrow>
          handleAnalyzeData env args s = (Inl (msg_analysis_failed @ m), s))
       \<and> (truthy (get_prop args ''llm_config'')
            \<and> configureLLM env (get_prop args ''llm_config'') = Inr h
            \<and> analyze env df (get_prop args ''query'') h = Inl m \<longrightarrow>
          handleAnalyzeData env args s =
            (Inl (msg_analysis_failed @ m), s\<lparr>currentLLM := Some h\<rparr>))
       \<and> (\<not> truthy (get_prop args ''llm_config'') \<and> currentLLM s = Some llm
            \<and> analyze env df (get_prop args ''query'') llm = Inl m \<longrightarrow>
          handleAnalyzeData env args s = (Inl (msg_analysis_failed @ m), s))
       \<and> (configureLLM env a = Inl m \<longrightarrow>
          handleConfigureLLM env a s = (Inl (msg_llm_failed @ m), s))"
  using assms
  by (auto simp: handleAnalyzeData_def handleAnalyzeData_try_def run_analysis_def
        handleConfigureLLM_def handleConfigureLLM_try_def Let_def)

theorem analyze_failures_prefixed_witness:
  "\<not> nullish demo_args
   \<and> currentDataframe session_loaded = Some (make_dataframe demo_rows ''people.csv'')
   \<and> truthy (get_prop demo_args ''llm_config'')
   \<and> configureLLM env_config_fails (get_prop demo_args ''llm_config'') = Inl ''invalid api key''
   \<and> handleAnalyzeData env_config_fails demo_args session_loaded
        = (Inl (msg_analysis_failed @ ''invalid api key''), session_loaded)
   \<and> handleConfigureLLM env_config_fails demo_args session_loaded
        = (Inl (msg_llm_failed @ ''invalid api key''), session_loaded)
   \<and> configureLLM env_analysis_fails (get_prop demo_args ''llm_config'') = Inr 7
   \<and> analyze env_analysis_fails (make_dataframe demo_rows ''people.csv'')
        (get_prop demo_args ''query'') 7 = Inl ''timeout''
   \<and> handleAnalyzeData env_analysis_fails demo_args session_loaded
        = (Inl (msg_analysis_failed @ ''timeout''), session_loaded\<lparr>currentLLM := Some 7\<rparr>)
   \<and> \<not> nullish query_only_args \<and> \<not> truthy (get_prop query_only_args ''llm_config'')
   \<and> currentLLM session_loaded = Some 1
   \<and> analyze env_analysis_fails (make_dataframe demo_rows ''people.csv'')
        (get_prop query_only_args ''query'') 1 = Inl ''timeout''
   \<and> handleAnalyzeData env_analysis_fails query_only_args session_loaded
        = (Inl (msg_analysis_failed @ ''timeout''), session_loaded)"
proof -
  let ?df = "make_dataframe demo_rows ''people.csv''"
  have a: "\<not> nullish demo_args" and b: "truthy (get_prop demo_args ''llm_config'')"
    by (simp_all add: nullish_def demo_args_def)
  have c: "currentDataframe session_loaded = Some ?df" and c': "currentLLM session_loaded = Some 1"
    by (simp_all add: session_loaded_def)
  have d: "configureLLM env_config_fails (get_prop demo_args ''llm_config'') = Inl ''invalid api key''"
    and d': "configureLLM env_config_fails demo_args = Inl ''invalid api key''"
    by (simp_all add: env_config_fails_def)
  have e: "configureLLM env_analysis_fails (get_prop demo_args ''llm_config'') = Inr 7"
    and e': "analyze env_analysis_fails ?df (get_prop demo_args ''query'') 7 = Inl ''timeout''"
    and e'': "analyze env_analysis_fails ?df (get_prop query_only_args ''query'') 1 = Inl ''timeout''"
    by (simp_all add: env_analysis_fails_def demo_env_def)
  have f: "\<not> nullish query_only_args" and f': "\<not> truthy (get_prop query_only_args ''llm_config'')"
    by (simp_all add: nullish_def query_only_args_def)
  from analyze_failures_prefixed
         [OF a c, of env_config_fails "''invalid api key''" 7 1 demo_args] b d d'
  have g: "handleAnalyzeData env_config_fails demo_args session_loaded
             = (Inl (msg_analysis_failed @ ''invalid api key''), session_loaded)"
    and g': "handleConfigureLLM env_config_fails demo_args session_loaded
             = (Inl (msg_llm_failed @ ''invalid api key''), session_loaded)"
    by blast+
  from analyze_failures_prefixed [OF a c, of env_analysis_fails "''timeout''" 7 1 demo_args] b e e'
  have h: "handleAnalyzeData env_analysis_fails demo_args session_loaded
             = (Inl (msg_analysis_failed @ ''timeout''), session_loaded\<lparr>currentLLM := Some 7\<rparr>)"
    by blast
  from analyze_failures_prefixed [OF f c, of env_analysis_fails "''timeout''" 7 1 demo_args] f' c' e''
  have k: "handleAnalyzeData env_analysis_fails query_only_args session_loaded
             = (Inl (msg_analysis_failed @ ''timeout''), session_loaded)"
    by blast
  from a b c c' d e e' e'' f f' g g' h k show ?thesis
    by blast
qed

subsection \<open>Upload\<close>

lemma read_people: "read_data demo_env people_csv = Resolved demo_rows"
  by (simp add: read_data_def demo_env_def people_csv_def demo_extname_def readCSVFile_def
        demo_read_stream_def demo_csv_def)

lemma read_six: "read_data demo_env six_csv = Resolved six_rows"
  by (simp add: read_data_def demo_env_def six_csv_def demo_extname_def readCSVFile_def
        demo_read_stream_def demo_csv_def people_text_def six_text_def)

lemma read_empty: "read_data demo_env empty_csv = Resolved []"
  by (simp add: read_data_def demo_env_def empty_csv_def demo_extname_def readCSVFile_def
        demo_read_stream_def demo_csv_def people_text_def six_text_def)

lemma read_bad: "read_data demo_env bad_csv = Rejected ''Row length does not match headers''"
  by (simp add: read_data_def demo_env_def bad_csv_def demo_extname_def readCSVFile_def
        demo_read_stream_def demo_csv_def people_text_def six_text_def)

lemma read_book: "read_data demo_env book_xlsx = Rejected ''File is password-protected''"
  by (simp add: read_data_def demo_env_def book_xlsx_def demo_extname_def readExcelFile_def)

lemma read_missing: "read_data demo_env missing_csv = Uncaught ''ENOENT''"
  by (simp add: read_data_def demo_env_def missing_csv_def demo_extname_def readCSVFile_def
        demo_read_stream_def)

lemma unlink_demo: "unlinkSync demo_env p = Inr ()"
  by (simp add: demo_env_def)

lemma make_dataframe_counts:
  "make_dataframe d name =
     \<lparr>data = d, filename = name, rows = length d,
      columns = (case d of [] \<Rightarrow> 0 | r # rs \<Rightarrow> length (Object_keys r))\<rparr>"
  by (cases d) (simp_all add: make_dataframe_def)

text \<open>No handler but the upload writes the dataset slot.\<close>

lemma handleAnalyzeData_dataset:
  "currentDataframe (snd (handleAnalyzeData env args s)) = currentDataframe s"
  by (auto simp: handleAnalyzeData_def handleAnalyzeData_try_def Let_def
           split: option.splits sum.splits)

lemma handleConfigureLLM_dataset:
  "currentDataframe (snd (handleConfigureLLM env args s)) = currentDataframe s"
  by (auto simp: handleConfigureLLM_def handleConfigureLLM_try_def Let_def
           split: sum.splits option.splits)

lemma handleToolCall_dataset:
  "currentDataframe (snd (handleToolCall env params s)) = currentDataframe s"
  by (simp add: handleToolCall_def Let_def handleAnalyzeData_dataset handleConfigureLLM_dataset
           split: option.splits)

lemma mcp_post_dataset:
  "currentDataframe (snd (mcp_post env b s)) = currentDataframe s"
proof -
  have "currentDataframe (snd (mcp_dispatch env b s)) = currentDataframe s"
    by (simp add: mcp_dispatch_def Let_def handleToolCall_dataset split: option.splits)
  then show ?thesis
    by (cases "mcp_dispatch env b s") (auto simp: mcp_post_def split: sum.splits)
qed

lemma analyze_post_dataset:
  "currentDataframe (snd (analyze_post env b s)) = currentDataframe s"
proof (cases "handleAnalyzeData env
                (JObj [(''query'', get_prop b ''query''),
                       (''llm_config'', get_prop b ''llm_config'')]) s")
  case (Pair r s')
  with handleAnalyzeData_dataset
         [of env "JObj [(''query'', get_prop b ''query''),
                        (''llm_config'', get_prop b ''llm_config'')]" s]
  show ?thesis
    by (auto simp: analyze_post_def Let_def split: sum.splits)
qed

lemma configure_post_dataset:
  "currentDataframe (snd (configure_post env b s)) = currentDataframe s"
  using handleConfigureLLM_dataset [of env b s]
  by (cases "handleConfigureLLM env b s") (auto simp: configure_post_def split: sum.splits)

lemma counts_agree_make_dataframe: "counts_agree (make_dataframe d name)"
  by (simp add: counts_agree_def make_dataframe_counts)

lemma upload_post_dataset_ok:
  "dataset_ok s \<Longrightarrow> dataset_ok (snd (upload_post env req_file s))"
  by (auto simp: upload_post_def dataset_ok_def Let_def counts_agree_make_dataframe
           split: option.splits sum.splits settled.splits)

lemma serve_dataset_ok:
  assumes "dataset_ok s"
  shows "dataset_ok (snd (serve env r s))"
proof (cases r)
  case (PostUpload f)
  with assms show ?thesis
    by (simp add: serve_def upload_post_dataset_ok)
next
  case (PostMcp b)
  with assms show ?thesis
    by (simp add: serve_def sent_def dataset_ok_def mcp_post_dataset)
next
  case (PostAnalyze b)
  with assms show ?thesis
    by (simp add: serve_def sent_def dataset_ok_def analyze_post_dataset)
next
  case (PostConfigureLLM b)
  with assms show ?thesis
    by (simp add: serve_def sent_def dataset_ok_def configure_post_dataset)
qed

lemma serve_all_dataset_ok: "dataset_ok s \<Longrightarrow> dataset_ok (serve_all rs s)"
proof (induction rs arbitrary: s)
  case Nil
  then show ?case by simp
next
  case (Cons er rs)
  obtain env r where er: "er = (env, r)" by (cases er)
  obtain reply s' where step: "serve env r s = (reply, s')" by (cases "serve env r s")
  with serve_dataset_ok [OF Cons.prems, of env r] have ok: "dataset_ok s'"
    by simp
  show ?case
  proof (cases reply)
    case (Sent response)
    with er step ok Cons.IH show ?thesis by simp
  next
    case (Died e)
    with er step ok show ?thesis by simp
  qed
qed

text \<open>
  C6. When the reader returns rows \<open>d\<close>, the upload leaves the session with the
  dataset slot holding exactly \<open>d\<close>, the file's name, \<open>length d\<close> as the row count and
  the number of keys of the first row (zero for no rows) as the column count; nothing of
  the dataset held before remains, and the backend slot is untouched. Every upload that
  is answered with status 200 is such an upload. The agreement of the two counts with
  the rows is an invariant of the service: it holds of the dataset slot after any
  sequence of requests.
\<close>

theorem upload_replaces_dataset:
  "(read_data env f = Resolved d \<longrightarrow>
      snd (upload_post env (Some f) s) =
        s\<lparr>currentDataframe :=
             Some \<lparr>data = d, filename = originalname f, rows = length d,
                   columns = (case d of [] \<Rightarrow> 0 | r # rs \<Rightarrow> length (Object_keys r))\<rparr>\<rparr>)
   \<and> (fst (upload_post env req_file s) = Sent response \<and> status response = 200 \<longrightarrow>
        (\<exists>f d. req_file = Some f \<and> read_data env f = Resolved d))
   \<and> dataset_ok (serve_all requests initial_session)"
proof -
  have "read_data env f = Resolved d \<longrightarrow>
      snd (upload_post env (Some f) s) =
        s\<lparr>currentDataframe :=
             Some \<lparr>data = d, filename = originalname f, rows = length d,
                   columns = (case d of [] \<Rightarrow> 0 | r # rs \<Rightarrow> length (Object_keys r))\<rparr>\<rparr>"
    using make_dataframe_counts [of d "originalname f"]
    by (simp add: upload_post_def Let_def split: sum.splits)
  moreover have "fst (upload_post env req_file s) = Sent response \<and> status response = 200 \<longrightarrow>
        (\<exists>f d. req_file = Some f \<and> read_data env f = Resolved d)"
    by (auto simp: upload_post_def Let_def split: option.splits sum.splits settled.splits)
  moreover have "dataset_ok (serve_all requests initial_session)"
    by (rule serve_all_dataset_ok) (simp add: dataset_ok_def initial_session_def)
  ultimately show ?thesis by blast
qed

theorem upload_replaces_dataset_witness:
  "read_data demo_env people_csv = Resolved demo_rows
   \<and> snd (upload_post demo_env (Some people_csv) session_six) =
       \<lparr>currentDataframe =
          Some \<lparr>data = demo_rows, filename = ''people.csv'', rows = 2, columns = 2\<rparr>,
        currentLLM = Some 1\<rparr>
   \<and> read_data demo_env empty_csv = Resolved []
   \<and> snd (upload_post demo_env (Some empty_csv) session_six) =
       \<lparr>currentDataframe =
          Some \<lparr>data = [], filename = ''empty.csv'', rows = 0, columns = 0\<rparr>,
        currentLLM = Some 1\<rparr>
   \<and> (\<exists>response. fst (upload_post demo_env (Some people_csv) session_six) = Sent response
                   \<and> status response = 200)
   \<and> (\<exists>f d. Some people_csv = Some f \<and> read_data demo_env f = Resolved d)
   \<and> serve_all [(demo_env, PostUpload (Some six_csv)), (demo_env, PostUpload (Some people_csv))]
        initial_session =
       \<lparr>currentDataframe =
          Some \<lparr>data = demo_rows, filename = ''people.csv'', rows = 2, columns = 2\<rparr>,
        currentLLM = None\<rparr>
   \<and> dataset_ok
        (serve_all [(demo_env, PostUpload (Some six_csv)), (demo_env, PostUpload (Some people_csv))]
           initial_session)"
proof -
  let ?two = "[(demo_env, PostUpload (Some six_csv)), (demo_env, PostUpload (Some people_csv))]"
  let ?ok = "\<lparr>status = 200,
              body = upload_ok_body (make_dataframe demo_rows (originalname people_csv))
                       (originalname people_csv) demo_rows\<rparr>"
  note inst = upload_replaces_dataset
                [of demo_env people_csv demo_rows session_six "Some people_csv" ?ok ?two]
  from inst read_people
  have a: "snd (upload_post demo_env (Some people_csv) session_six) =
       \<lparr>currentDataframe =
          Some \<lparr>data = demo_rows, filename = ''people.csv'', rows = 2, columns = 2\<rparr>,
        currentLLM = Some 1\<rparr>"
    by (simp add: people_csv_def session_six_def demo_rows_def Object_keys_def)
  from upload_replaces_dataset
         [of demo_env empty_csv "[]" session_six "Some empty_csv" ?ok ?two] read_empty
  have b: "snd (upload_post demo_env (Some empty_csv) session_six) =
       \<lparr>currentDataframe =
          Some \<lparr>data = [], filename = ''empty.csv'', rows = 0, columns = 0\<rparr>,
        currentLLM = Some 1\<rparr>"
    by (simp add: empty_csv_def session_six_def)
  have c: "fst (upload_post demo_env (Some people_csv) session_six) = Sent ?ok"
    and c0: "status ?ok = 200"
    by (simp_all add: upload_post_def read_people unlink_demo Let_def)
  from inst c c0
  have c': "\<exists>f d. Some people_csv = Some f \<and> read_data demo_env f = Resolved d"
    by blast
  from upload_replaces_dataset
         [of demo_env people_csv demo_rows
             "snd (upload_post demo_env (Some six_csv) initial_session)" "Some people_csv"
             ?ok ?two]
       read_people
  have d: "serve_all ?two initial_session =
       \<lparr>currentDataframe =
          Some \<lparr>data = demo_rows, filename = ''people.csv'', rows = 2, columns = 2\<rparr>,
        currentLLM = None\<rparr>"
    by (simp add: serve_def upload_post_def read_six unlink_demo Let_def initial_session_def
          people_csv_def demo_rows_def Object_keys_def)
  from inst have e: "dataset_ok (serve_all ?two initial_session)"
    by blast
  from a b c c0 c' d e read_people read_empty show ?thesis by blast
qed

text \<open>
  C8. When the reader returns rows \<open>d\<close> and the temporary file is removed, the answer
  is status 200 with the five fields \<^verbatim>\<open>message\<close>, \<^verbatim>\<open>filename\<close>, \<^verbatim>\<open>rows\<close>, \<^verbatim>\<open>columns\<close>,
  \<^verbatim>\<open>preview\<close>, the preview being the first five rows of \<open>d\<close>, hence all of \<open>d\<close> when
  it has fewer than five. When the reader's promise is rejected with message \<open>m\<close> (an
  Excel read that throws, an error of the CSV transform, an extension with no reader),
  the answer is status 500 with the body \<^verbatim>\<open>{error: m}\<close>. When the read stream of a CSV
  file fails, no answer is sent at all: the promise never settles and the process dies
  on the uncaught error.
\<close>

theorem upload_response_shape:
  "(read_data env f = Resolved d \<and> unlinkSync env (path f) = Inr u \<longrightarrow>
      fst (upload_post env (Some f) s) =
        Sent \<lparr>status = 200,
              body = JObj [(''message'', JStr msg_upload_ok),
                           (''filename'', JStr (originalname f)),
                           (''rows'', count_number (length d)),
                           (''columns'',
                            count_number (case d of [] \<Rightarrow> 0 | r # rs \<Rightarrow> length (Object_keys r))),
                           (''preview'', JArr (map JObj (take 5 d)))]\<rparr>)
   \<and> (read_data env f = Resolved d \<and> unlinkSync env (path f) = Inr u \<and> length d < 5 \<longrightarrow>
        (\<exists>response. fst (upload_post env (Some f) s) = Sent response
                     \<and> get_prop (body response) ''preview'' = JArr (map JObj d)))
   \<and> (read_data env f = Rejected m \<longrightarrow>
        fst (upload_post env (Some f) s)
          = Sent \<lparr>status = 500, body = JObj [(''error'', JStr m)]\<rparr>)
   \<and> (toLowerCase env (extname env (originalname f)) = ''.csv''
        \<and> createReadStream env (path f) = Inl e \<longrightarrow>
        fst (upload_post env (Some f) s) = Died e)"
  by (auto simp: upload_post_def Let_def upload_ok_body_def error_body_def
        make_dataframe_counts read_data_def readCSVFile_def)

theorem upload_response_shape_witness:
  "read_data demo_env six_csv = Resolved six_rows \<and> unlinkSync demo_env (path six_csv) = Inr ()
   \<and> fst (upload_post demo_env (Some six_csv) session_no_data) =
        Sent \<lparr>status = 200,
              body = JObj [(''message'', JStr msg_upload_ok),
                           (''filename'', JStr ''six.csv''),
                           (''rows'', JNum ''6''),
                           (''columns'', JNum ''1''),
                           (''preview'',
                            JArr [JObj [(''n'', JStr ''1'')], JObj [(''n'', JStr ''2'')],
                                  JObj [(''n'', JStr ''3'')], JObj [(''n'', JStr ''4'')],
                                  JObj [(''n'', JStr ''5'')]])]\<rparr>
   \<and> read_data demo_env people_csv = Resolved demo_rows \<and> length demo_rows < 5
   \<and> (\<exists>response. fst (upload_post demo_env (Some people_csv) session_no_data) = Sent response
                   \<and> get_prop (body response) ''preview'' = JArr (map JObj demo_rows))
   \<and> read_data demo_env book_xlsx = Rejected ''File is password-protected''
   \<and> fst (upload_post demo_env (Some book_xlsx) session_no_data)
        = Sent \<lparr>status = 500, body = JObj [(''error'', JStr ''File is password-protected'')]\<rparr>
   \<and> toLowerCase demo_env (extname demo_env (originalname missing_csv)) = ''.csv''
   \<and> createReadStream demo_env (path missing_csv) = Inl ''ENOENT''
   \<and> fst (upload_post demo_env (Some missing_csv) session_no_data) = Died ''ENOENT''"
proof -
  from upload_response_shape
         [of demo_env six_csv six_rows "()" session_no_data "''x''" "''x''"] read_six
  have a: "fst (upload_post demo_env (Some six_csv) session_no_data) =
        Sent \<lparr>status = 200,
              body = JObj [(''message'', JStr msg_upload_ok),
                           (''filename'', JStr ''six.csv''),
                           (''rows'', JNum ''6''),
                           (''columns'', JNum ''1''),
                           (''preview'',
                            JArr [JObj [(''n'', JStr ''1'')], JObj [(''n'', JStr ''2'')],
                                  JObj [(''n'', JStr ''3'')], JObj [(''n'', JStr ''4'')],
                                  JObj [(''n'', JStr ''5'')]])]\<rparr>"
    by (simp add: unlink_demo six_rows_def six_csv_def Object_keys_def count_number_def
          digit_char_def)
  have small: "length demo_rows < 5"
    by (simp add: demo_rows_def)
  from upload_response_shape
         [of demo_env people_csv demo_rows "()" session_no_data "''x''" "''x''"]
       read_people small unlink_demo [of "path people_csv"]
  have b: "\<exists>response. fst (upload_post demo_env (Some people_csv) session_no_data) = Sent response
                   \<and> get_prop (body response) ''preview'' = JArr (map JObj demo_rows)"
    by blast
  from upload_response_shape
         [of demo_env book_xlsx demo_rows "()" session_no_data
             "''File is password-protected''" "''x''"] read_book
  have c: "fst (upload_post demo_env (Some book_xlsx) session_no_data)
        = Sent \<lparr>status = 500, body = JObj [(''error'', JStr ''File is password-protected'')]\<rparr>"
    by blast
  have ext: "toLowerCase demo_env (extname demo_env (originalname missing_csv)) = ''.csv''"
    and gone: "createReadStream demo_env (path missing_csv) = Inl ''ENOENT''"
    by (simp_all add: demo_env_def missing_csv_def demo_extname_def demo_read_stream_def)
  from upload_response_shape
         [of demo_env missing_csv demo_rows "()" session_no_data "''x''" "''ENOENT''"] ext gone
  have d: "fst (upload_post demo_env (Some missing_csv) session_no_data) = Died ''ENOENT''"
    by blast
  from a b c d small ext gone read_six read_people read_book unlink_demo [of "path six_csv"]
  show ?thesis by blast
qed

text \<open>
  C9. When the reader's promise is rejected (an Excel read that throws, an error of the
  CSV transform, an extension with no reader), the upload answers status 500 with the
  error's message and returns the session it was given: the dataset loaded before, if
  any, is still the current one. When the read stream of a CSV file fails, the dataset
  slot has not been written either, but there is no answer: the process dies on the
  uncaught error.
\<close>

theorem upload_failure_keeps_dataset:
  "(read_data env f = Rejected m \<longrightarrow>
      upload_post env (Some f) s = (Sent \<lparr>status = 500, body = JObj [(''error'', JStr m)]\<rparr>, s))
   \<and> ((toLowerCase env (extname env (originalname f)) = ''.xlsx''
         \<or> toLowerCase env (extname env (originalname f)) = ''.xls'')
        \<and> xlsx_sheet_to_json env (path f) = Inl m \<longrightarrow>
      upload_post env (Some f) s = (Sent \<lparr>status = 500, body = JObj [(''error'', JStr m)]\<rparr>, s))
   \<and> (toLowerCase env (extname env (originalname f)) = ''.csv''
        \<and> createReadStream env (path f) = Inr text \<and> csv env text = Inl m \<longrightarrow>
      upload_post env (Some f) s = (Sent \<lparr>status = 500, body = JObj [(''error'', JStr m)]\<rparr>, s))
   \<and> (toLowerCase env (extname env (originalname f)) = ''.csv''
        \<and> createReadStream env (path f) = Inl e \<longrightarrow>
      upload_post env (Some f) s = (Died e, s))"
  by (auto simp: upload_post_def error_body_def read_data_def readCSVFile_def readExcelFile_def)

theorem upload_failure_keeps_dataset_witness:
  "read_data demo_env bad_csv = Rejected ''Row length does not match headers''
   \<and> upload_post demo_env (Some bad_csv) session_six
        = (Sent \<lparr>status = 500,
                 body = JObj [(''error'', JStr ''Row length does not match headers'')]\<rparr>,
           session_six)
   \<and> toLowerCase demo_env (extname demo_env (originalname book_xlsx)) = ''.xlsx''
   \<and> xlsx_sheet_to_json demo_env (path book_xlsx) = Inl ''File is password-protected''
   \<and> upload_post demo_env (Some book_xlsx) session_six
        = (Sent \<lparr>status = 500, body = JObj [(''error'', JStr ''File is password-protected'')]\<rparr>,
           session_six)
   \<and> toLowerCase demo_env (extname demo_env (originalname missing_csv)) = ''.csv''
   \<and> createReadStream demo_env (path missing_csv) = Inl ''ENOENT''
   \<and> upload_post demo_env (Some missing_csv) session_six = (Died ''ENOENT'', session_six)
   \<and> currentDataframe session_six = Some (make_dataframe six_rows ''six.csv'')"
proof -
  from upload_failure_keeps_dataset
         [of demo_env bad_csv "''Row length does not match headers''" session_six "''x''" "''x''"]
       read_bad
  have a: "upload_post demo_env (Some bad_csv) session_six
        = (Sent \<lparr>status = 500,
                 body = JObj [(''error'', JStr ''Row length does not match headers'')]\<rparr>,
           session_six)"
    by blast
  have xl: "toLowerCase demo_env (extname demo_env (originalname book_xlsx)) = ''.xlsx''"
    and locked: "xlsx_sheet_to_json demo_env (path book_xlsx) = Inl ''File is password-protected''"
    by (simp_all add: demo_env_def book_xlsx_def demo_extname_def)
  from upload_failure_keeps_dataset
         [of demo_env book_xlsx "''File is password-protected''" session_six "''x''" "''x''"]
       xl locked
  have b: "upload_post demo_env (Some book_xlsx) session_six
        = (Sent \<lparr>status = 500, body = JObj [(''error'', JStr ''File is password-protected'')]\<rparr>,
           session_six)"
    by blast
  have ext: "toLowerCase demo_env (extname demo_env (originalname missing_csv)) = ''.csv''"
    and gone: "createReadStream demo_env (path missing_csv) = Inl ''ENOENT''"
    by (simp_all add: demo_env_def missing_csv_def demo_extname_def demo_read_stream_def)
  from upload_failure_keeps_dataset
         [of demo_env missing_csv "''x''" session_six "''x''" "''ENOENT''"] ext gone
  have c: "upload_post demo_env (Some missing_csv) session_six = (Died ''ENOENT'', session_six)"
    by blast
  have d: "currentDataframe session_six = Some (make_dataframe six_rows ''six.csv'')"
    by (simp add: session_six_def)
  from a b c d xl locked ext gone read_bad show ?thesis
    by blast
qed

subsection \<open>The analysis endpoint\<close>

text \<open>
  C10. \<^verbatim>\<open>POST /analyze\<close> with a falsy \<^verbatim>\<open>query\<close> (absent, \<^verbatim>\<open>null\<close>, \<^verbatim>\<open>false\<close>,
  \<^verbatim>\<open>0\<close> or the empty string) answers status 400 with the missing-query message. The
  answer does not depend on the collaborators and the session is returned as given, so
  \<^verbatim>\<open>handleAnalyzeData\<close> has not run.
\<close>

theorem analyze_rejects_falsy_query:
  assumes "\<not> nullish req_body" and "\<not> truthy (get_prop req_body ''query'')"
  shows "analyze_post env req_body s =
           (\<lparr>status = 400, body = JObj [(''error'', JStr msg_need_query)]\<rparr>, s)"
  using assms by (simp add: analyze_post_def error_body_def Let_def)

theorem analyze_rejects_falsy_query_witness:
  "\<not> nullish (JObj [(''query'', JStr [])])
   \<and> \<not> truthy (get_prop (JObj [(''query'', JStr [])]) ''query'')
   \<and> analyze_post demo_env (JObj [(''query'', JStr [])]) session_loaded
        = (\<lparr>status = 400, body = JObj [(''error'', JStr msg_need_query)]\<rparr>, session_loaded)
   \<and> \<not> nullish (JObj []) \<and> \<not> truthy (get_prop (JObj []) ''query'')
   \<and> analyze_post demo_env (JObj [(''query'', JStr [])]) session_loaded
        = analyze_post demo_env (JObj []) session_loaded"
  using analyze_rejects_falsy_query [of "JObj [(''query'', JStr [])]" demo_env session_loaded]
        analyze_rejects_falsy_query [of "JObj []" demo_env session_loaded]
  by (simp add: nullish_def)

subsection \<open>The event stream\<close>

lemma delay_of_pos: "0 < delay_of ms"
  by (simp add: delay_of_def)

lemma due_times_None [simp]: "due_times T None = []"
  by (simp add: due_times_def)

lemma due_times_late: "T < due t \<Longrightarrow> due_times T (Some t) = []"
  by (simp add: due_times_def)

lemma due_times_after:
  "(case slot of None \<Rightarrow> True | Some t \<Rightarrow> T < due t) \<Longrightarrow> due_times T slot = []"
  by (cases slot) (simp_all add: due_times_late)

text \<open>A timer that is due now is due again one delay later, and so on.\<close>

lemma due_times_step:
  assumes "due t \<le> T"
  shows "due_times T (Some t) = due t # due_times T (Some (rearm t))"
proof -
  let ?q = "delay_of (interval t)"
  have q: "0 < ?q" by (rule delay_of_pos)
  let ?n = "(T - due t) div ?q"
  let ?m = "if due t + ?q \<le> T then Suc ((T - (due t + ?q)) div ?q) else 0"
  have nm: "?n = ?m"
  proof (cases "due t + ?q \<le> T")
    case True
    then have "?q \<le> T - due t" by simp
    then have "?n = Suc ((T - due t - ?q) div ?q)"
      using q by (simp add: le_div_geq)
    with True show ?thesis by simp
  next
    case False
    with assms have "T - due t < ?q" by simp
    with False show ?thesis by simp
  qed
  have "due_times T (Some t) = map (\<lambda>k. due t + k * ?q) [0..<Suc ?n]"
    using assms by (simp add: due_times_def)
  also have "[0..<Suc ?n] = 0 # map Suc [0..<?n]"
    by (simp add: upt_conv_Cons map_Suc_upt del: upt_Suc)
  also have "map (\<lambda>k. due t + k * ?q) (0 # map Suc [0..<?n])
               = due t # map (\<lambda>k. due t + ?q + k * ?q) [0..<?n]"
    by (simp add: o_def add.assoc)
  also have "map (\<lambda>k. due t + ?q + k * ?q) [0..<?n] = due_times T (Some (rearm t))"
    using nm by (simp add: due_times_def rearm_def)
  finally show ?thesis .
qed

lemma due_times_fresh:
  assumes "0 < ms" and "ms \<le> 2147483647"
  shows "due_times (now + T) (Some (setInterval now ms))
           = map (\<lambda>k. now + ms * Suc k) [0..<T div ms]"
proof -
  from assms have d: "delay_of ms = ms"
    by (simp add: delay_of_def)
  show ?thesis
  proof (cases "ms \<le> T")
    case True
    then have "Suc ((T - ms) div ms) = T div ms"
      using assms by (simp add: le_div_geq)
    with True show ?thesis
      by (simp add: due_times_def setInterval_def d add.assoc)
  next
    case False
    then show ?thesis
      by (simp add: due_times_def setInterval_def d)
  qed
qed

lemma is_type_events [simp]:
  "is_type ty (heartbeat_event env t) = (ty = ''heartbeat'')"
  "is_type ty (status_event env t s) = (ty = ''status'')"
  "is_type ty (connection_event env t) = (ty = ''connection'')"
  by (auto simp: is_type_def heartbeat_event_def status_event_def connection_event_def)

lemma next_timer_cases:
  "next_timer c = None \<Longrightarrow> heartbeat c = None \<and> statusInterval c = None"
  "next_timer c = Some (HeartbeatTimer, d) \<Longrightarrow>
     \<exists>h. heartbeat c = Some h \<and> due h = d
         \<and> (case statusInterval c of None \<Rightarrow> True | Some t \<Rightarrow> d \<le> due t)"
  "next_timer c = Some (StatusTimer, d) \<Longrightarrow>
     \<exists>t. statusInterval c = Some t \<and> due t = d
         \<and> (case heartbeat c of None \<Rightarrow> True | Some h \<Rightarrow> d < due h)"
  by (auto simp: next_timer_def split: option.splits if_splits)

text \<open>
  The heartbeat events of a run are those already written followed by one for each
  instant at which the heartbeat timer is due; likewise for the status events, each
  reading the session of its instant.
\<close>

lemma heartbeats_run_timers:
  "filter (is_type ''heartbeat'') (written (run_timers env sess T c)) =
     filter (is_type ''heartbeat'') (written c)
       @ map (heartbeat_event env) (due_times T (heartbeat c))"
proof (induction env sess T c rule: run_timers.induct)
  case (1 env sess T c)
  show ?case
  proof (cases "next_timer c")
    case None
    then show ?thesis
      using next_timer_cases(1) [of c] by simp
  next
    case (Some kd)
    obtain k d where kd: "kd = (k, d)" by (cases kd)
    show ?thesis
    proof (cases "d \<le> T")
      case False
      have "due_times T (heartbeat c) = []"
      proof (cases k)
        case HeartbeatTimer
        with Some kd False next_timer_cases(2) [of c d] show ?thesis
          by (auto simp: due_times_late)
      next
        case StatusTimer
        with Some kd False next_timer_cases(3) [of c d] show ?thesis
          by (auto intro!: due_times_after split: option.splits)
      qed
      with Some kd False show ?thesis
        by simp
    next
      case True
      note IH = "1.IH" [OF Some kd [symmetric] True]
      have run: "run_timers env sess T c = run_timers env sess T (fire env sess k c)"
        using Some kd True by (subst run_timers.simps) simp
      show ?thesis
      proof (cases k)
        case HeartbeatTimer
        with Some kd next_timer_cases(2) [of c d]
        obtain h where h: "heartbeat c = Some h" "due h = d" by auto
        with True have "due_times T (Some h) = due h # due_times T (Some (rearm h))"
          by (simp add: due_times_step)
        with IH h HeartbeatTimer show ?thesis
          unfolding run by (simp add: fire_def del: run_timers.simps)
      next
        case StatusTimer
        with Some kd next_timer_cases(3) [of c d]
        obtain t where t: "statusInterval c = Some t" by auto
        with IH StatusTimer show ?thesis
          unfolding run by (simp add: fire_def sendStatus_def del: run_timers.simps)
      qed
    qed
  qed
qed

lemma statuses_run_timers:
  "filter (is_type ''status'') (written (run_timers env sess T c)) =
     filter (is_type ''status'') (written c)
       @ map (\<lambda>t. status_event env t (sess t)) (due_times T (statusInterval c))"
proof (induction env sess T c rule: run_timers.induct)
  case (1 env sess T c)
  show ?case
  proof (cases "next_timer c")
    case None
    then show ?thesis
      using next_timer_cases(1) [of c] by simp
  next
    case (Some kd)
    obtain k d where kd: "kd = (k, d)" by (cases kd)
    show ?thesis
    proof (cases "d \<le> T")
      case False
      have "due_times T (statusInterval c) = []"
      proof (cases k)
        case HeartbeatTimer
        with Some kd False next_timer_cases(2) [of c d] show ?thesis
          by (auto intro!: due_times_after split: option.splits)
      next
        case StatusTimer
        with Some kd False next_timer_cases(3) [of c d] show ?thesis
          by (auto simp: due_times_late)
      qed
      with Some kd False show ?thesis
        by simp
    next
      case True
      note IH = "1.IH" [OF Some kd [symmetric] True]
      have run: "run_timers env sess T c = run_timers env sess T (fire env sess k c)"
        using Some kd True by (subst run_timers.simps) simp
      show ?thesis
      proof (cases k)
        case HeartbeatTimer
        with Some kd next_timer_cases(2) [of c d]
        obtain h where h: "heartbeat c = Some h" by auto
        with IH HeartbeatTimer show ?thesis
          unfolding run by (simp add: fire_def del: run_timers.simps)
      next
        case StatusTimer
        with Some kd next_timer_cases(3) [of c d]
        obtain t where t: "statusInterval c = Some t" "due t = d" by auto
        with True have "due_times T (Some t) = due t # due_times T (Some (rearm t))"
          by (simp add: due_times_step)
        with IH t StatusTimer show ?thesis
          unfolding run by (simp add: fire_def sendStatus_def del: run_timers.simps)
      qed
    qed
  qed
qed

text \<open>Timer callbacks only append to what has been written.\<close>

lemma written_run_timers_extends:
  "\<exists>ys. written (run_timers env sess T c) = written c @ ys"
proof (induction env sess T c rule: run_timers.induct)
  case (1 env sess T c)
  show ?case
  proof (cases "next_timer c")
    case None
    then show ?thesis by simp
  next
    case (Some kd)
    obtain k d where kd: "kd = (k, d)" by (cases kd)
    show ?thesis
    proof (cases "d \<le> T")
      case False
      with Some kd show ?thesis by simp
    next
      case True
      from "1.IH" [OF Some kd [symmetric] True]
      obtain ys where ys: "written (run_timers env sess T (fire env sess k c))
                             = written (fire env sess k c) @ ys" ..
      have run: "run_timers env sess T c = run_timers env sess T (fire env sess k c)"
        using Some kd True by (subst run_timers.simps) simp
      have "\<exists>zs. written (fire env sess k c) = written c @ zs"
        by (cases k) (auto simp: fire_def sendStatus_def split: option.splits)
      with ys show ?thesis
        unfolding run by (auto simp del: run_timers.simps)
    qed
  qed
qed

lemma run_timers_closed: "run_timers env sess T (on_close c) = on_close c"
  by (subst run_timers.simps) (simp add: next_timer_def on_close_def)

text \<open>The first two minutes of a connection opened at second 1, event by event.\<close>

lemma sse_two_minutes:
  "written (run_timers demo_env demo_timeline 121000 (sse_get demo_env 1000 session_no_backend)) =
     [connection_event demo_env 1000,
      status_event demo_env 1000 session_no_backend,
      heartbeat_event demo_env 31000,
      heartbeat_event demo_env 61000,
      status_event demo_env 61000 session_no_backend,
      heartbeat_event demo_env 91000,
      heartbeat_event demo_env 121000,
      status_event demo_env 121000 session_loaded]"
  by (simp add: next_timer_def fire_def sse_get_def setInterval_def rearm_def
        delay_of_def sendStatus_def demo_timeline_def)

text \<open>
  C4. On a connection opened at time \<open>now\<close> with the session \<open>s\<close>: the handler writes
  the \<^verbatim>\<open>connection\<close> event with its message and timestamp and, right after it, a
  \<^verbatim>\<open>status\<close> event with the presence flags of \<open>s\<close>; these stay the first two events of
  the stream whatever the timers add. While the connection is open, the heartbeat events
  written up to \<open>T\<close> milliseconds after the connection are exactly one per full 30000 ms,
  stamped \<open>now + 30000\<close>, \<open>now + 60000\<close>, ..., and the status events are the first one
  and one per full 60000 ms, each with the flags of the session at its instant. The
  \<^verbatim>\<open>close\<close> listener clears both timers, and after it the event loop writes nothing more
  on the connection.
\<close>

theorem sse_lifecycle:
  "written (sse_get env now s) =
     [JObj [(''type'', JStr ''connection''),
            (''message'', JStr msg_connected),
            (''timestamp'', JStr (toISOString env now))],
      JObj [(''type'', JStr ''status''),
            (''data'',
             JObj [(''service'', JStr ''PandasAI MCP Service''),
                   (''version'', JStr ''1.0.0''),
                   (''status'', JStr ''running''),
                   (''dataLoaded'', JBool (currentDataframe s \<noteq> None)),
                   (''llmConfigured'', JBool (currentLLM s \<noteq> None)),
                   (''timestamp'', JStr (toISOString env now))])]]
   \<and> take 2 (written (run_timers env sess horizon (sse_get env now s)))
       = [connection_event env now, status_event env now s]
   \<and> filter (is_type ''heartbeat'') (written (run_timers env sess (now + T) (sse_get env now s)))
       = map (\<lambda>k. heartbeat_event env (now + 30000 * Suc k)) [0..<T div 30000]
   \<and> filter (is_type ''status'') (written (run_timers env sess (now + T) (sse_get env now s)))
       = status_event env now s
         # map (\<lambda>k. status_event env (now + 60000 * Suc k) (sess (now + 60000 * Suc k)))
             [0..<T div 60000]
   \<and> heartbeat (on_close c) = None \<and> statusInterval (on_close c) = None
   \<and> written (run_timers env sess later (on_close c)) = written c"
proof -
  have init: "written (sse_get env now s) = [connection_event env now, status_event env now s]"
    by (simp add: sse_get_def sendStatus_def)
  obtain ys where "written (run_timers env sess horizon (sse_get env now s))
                     = written (sse_get env now s) @ ys"
    using written_run_timers_extends by blast
  with init have first2: "take 2 (written (run_timers env sess horizon (sse_get env now s)))
                            = [connection_event env now, status_event env now s]"
    by (simp del: run_timers.simps)
  have hb: "heartbeat (sse_get env now s) = Some (setInterval now 30000)"
    and st: "statusInterval (sse_get env now s) = Some (setInterval now 60000)"
    by (simp_all add: sse_get_def sendStatus_def)
  have beats: "filter (is_type ''heartbeat'')
                 (written (run_timers env sess (now + T) (sse_get env now s)))
               = map (\<lambda>k. heartbeat_event env (now + 30000 * Suc k)) [0..<T div 30000]"
    by (simp add: heartbeats_run_timers init hb due_times_fresh o_def del: run_timers.simps)
  have stats: "filter (is_type ''status'')
                 (written (run_timers env sess (now + T) (sse_get env now s)))
               = status_event env now s
                 # map (\<lambda>k. status_event env (now + 60000 * Suc k) (sess (now + 60000 * Suc k)))
                     [0..<T div 60000]"
    by (simp add: statuses_run_timers init st due_times_fresh o_def del: run_timers.simps)
  have closed: "written (run_timers env sess later (on_close c)) = written c"
    by (simp add: run_timers_closed del: run_timers.simps) (simp add: on_close_def)
  have timers: "heartbeat (on_close c) = None" "statusInterval (on_close c) = None"
    by (simp_all add: on_close_def)
  from init have "written (sse_get env now s) =
     [JObj [(''type'', JStr ''connection''),
            (''message'', JStr msg_connected),
            (''timestamp'', JStr (toISOString env now))],
      JObj [(''type'', JStr ''status''),
            (''data'',
             JObj [(''service'', JStr ''PandasAI MCP Service''),
                   (''version'', JStr ''1.0.0''),
                   (''status'', JStr ''running''),
                   (''dataLoaded'', JBool (currentDataframe s \<noteq> None)),
                   (''llmConfigured'', JBool (currentLLM s \<noteq> None)),
                   (''timestamp'', JStr (toISOString env now))])]]"
    by (simp add: connection_event_def status_event_def)
  with first2 beats stats closed timers show ?thesis
    by blast
qed

theorem sse_lifecycle_witness:
  "take 2 (written (run_timers demo_env demo_timeline 121000
                      (sse_get demo_env 1000 session_no_backend)))
     = [connection_event demo_env 1000, status_event demo_env 1000 session_no_backend]
   \<and> filter (is_type ''heartbeat'')
       (written (run_timers demo_env demo_timeline 121000
                   (sse_get demo_env 1000 session_no_backend)))
     = [heartbeat_event demo_env 31000, heartbeat_event demo_env 61000,
        heartbeat_event demo_env 91000, heartbeat_event demo_env 121000]
   \<and> filter (is_type ''status'')
       (written (run_timers demo_env demo_timeline 121000
                   (sse_get demo_env 1000 session_no_backend)))
     = [status_event demo_env 1000 session_no_backend,
        status_event demo_env 61000 session_no_backend,
        status_event demo_env 121000 session_loaded]
   \<and> written (run_timers demo_env demo_timeline 600000
                (on_close (run_timers demo_env demo_timeline 61000
                             (sse_get demo_env 1000 session_no_backend))))
     = written (run_timers demo_env demo_timeline 61000
                  (sse_get demo_env 1000 session_no_backend))"
proof -
  note inst = sse_lifecycle
    [where env = demo_env and now = 1000 and s = session_no_backend and sess = demo_timeline
       and horizon = 121000 and T = 120000 and later = 600000
       and c = "run_timers demo_env demo_timeline 61000
                  (sse_get demo_env 1000 session_no_backend)"]
  have up4: "[0..<120000 div 30000] = [0, 1, 2, 3::nat]"
    and up2: "[0..<120000 div 60000] = [0, 1::nat]"
    by (simp_all add: upt_rec)
  from inst show ?thesis
    unfolding up4 up2 by (simp add: demo_timeline_def del: run_timers.simps)
qed

end
